theory Spec2Isabelle
  imports Main "HOL-Library.AList"
begin

section \<open>Values, paths and errors\<close>

text \<open>
  The module under study is \<^verbatim>\<open>render_static/engine.py\<close>: the class
  \<^verbatim>\<open>StaticTemplateEngine\<close> with its nested class \<^verbatim>\<open>TemplateConfig\<close>.

  A \<^verbatim>\<open>pathlib.Path\<close> is kept as the expression that built it: \<open>Path s\<close> is
  \<^verbatim>\<open>Path(s)\<close>, \<open>Join p s\<close> is \<^verbatim>\<open>p / s\<close> and \<open>Parent p\<close> is \<^verbatim>\<open>p.parent\<close>.
  Only \<^verbatim>\<open>is_absolute\<close> is interpreted, with the POSIX rule.
\<close>

datatype path = Path string | Join path string | Parent path

fun is_absolute :: "path \<Rightarrow> bool" where
  "is_absolute (Path s) = (case s of [] \<Rightarrow> False | c # _ \<Rightarrow> c = CHR ''/'')"
| "is_absolute (Join p s) = (case s of [] \<Rightarrow> is_absolute p | c # _ \<Rightarrow> c = CHR ''/'' \<or> is_absolute p)"
| "is_absolute (Parent p) = is_absolute p"

text \<open>The annotation \<^verbatim>\<open>Union[str, Path]\<close>, and \<^verbatim>\<open>Path(x)\<close> on such a value.\<close>

datatype str_or_path = Str string | Pth path

fun to_Path :: "str_or_path \<Rightarrow> path" where
  "to_Path (Str s) = Path s"
| "to_Path (Pth p) = p"

text \<open>
  The values a configuration can hold. A \<^verbatim>\<open>dict\<close> is an association list in insertion
  order; its keys are strings. \<open>PSettings\<close> is the handle \<^verbatim>\<open>django.conf.settings\<close>.
\<close>

datatype pyval =
    PNone
  | PBool bool
  | PInt int
  | PStr string
  | PPath path
  | PList "pyval list"
  | PDict "(string \<times> pyval) list"
  | PSettings

type_synonym dict = "(string \<times> pyval) list"

text \<open>\<^verbatim>\<open>d.get(k, default)\<close>, \<^verbatim>\<open>d[k] = v\<close>, \<^verbatim>\<open>d.update(other)\<close> (also the literal
  \<^verbatim>\<open>{**d, **other}\<close>, which builds a new dict the same way) and \<^verbatim>\<open>d.pop(k)\<close>.\<close>

definition dict_get :: "('k \<times> 'v) list \<Rightarrow> 'k \<Rightarrow> 'v \<Rightarrow> 'v" where
  "dict_get d k dflt = (case map_of d k of None \<Rightarrow> dflt | Some v \<Rightarrow> v)"

definition dict_set :: "('k \<times> 'v) list \<Rightarrow> 'k \<Rightarrow> 'v \<Rightarrow> ('k \<times> 'v) list" where
  "dict_set d k v = AList.update k v d"

definition dict_update :: "('k \<times> 'v) list \<Rightarrow> ('k \<times> 'v) list \<Rightarrow> ('k \<times> 'v) list" where
  "dict_update d other = fold (\<lambda>(k, v) acc. dict_set acc k v) other d"

definition dict_pop :: "('k \<times> 'v) list \<Rightarrow> 'k \<Rightarrow> ('k \<times> 'v) list" where
  "dict_pop d k = AList.delete k d"

text \<open>
  Exceptions. The text of an f-string is kept as its parts: the literal text, and the
  values formatted into it (\<open>Val v\<close> for \<^verbatim>\<open>{v}\<close>, \<open>TypeOf v\<close> for \<^verbatim>\<open>{type(v)}\<close>, \<open>Exn x\<close>
  for a formatted built-in exception). \<open>Builtin x\<close> is an exception of the interpreter
  that the module does not catch, \<open>LibraryError x\<close> an exception raised inside a call on the
  file system or on the open file, named by its class (\<^verbatim>\<open>IsADirectoryError\<close>,
  \<^verbatim>\<open>PermissionError\<close>, \<^verbatim>\<open>UnicodeEncodeError\<close>, ...).
\<close>

datatype exn = TypeError | AttributeError | KeyError

datatype fpart = Lit string | Val pyval | TypeOf pyval | Exn exn

datatype error =
    ImproperlyConfigured "fpart list"
  | TemplateDoesNotExist string "error list"
  | InvalidTemplateEngineError "fpart list"
  | ImportError string
  | Builtin exn
  | LibraryError string

section \<open>Collaborators\<close>

text \<open>
  A backend resolves a name to a template or raises; a template has an origin that may
  name the application it was loaded from, and renders a context to text or raises. The host
  supplies the settings the module reads and \<^verbatim>\<open>import_string\<close>: \<open>None\<close> when the dotted
  path cannot be imported, otherwise the constructor of the backend class.
  \<open>STATIC_TEMPLATES h = None\<close> is a settings object without that attribute, \<open>Some None\<close>
  is the attribute set to \<^verbatim>\<open>None\<close>.
\<close>

record app_config =
  app_path :: string

record template =
  origin_app :: "app_config option"
  render :: "dict \<Rightarrow> error + string"

record backend =
  get_template :: "string \<Rightarrow> error + template"

record host =
  STATIC_TEMPLATES :: "dict option option"
  STATIC_ROOT :: "str_or_path option"
  import_string :: "string \<Rightarrow> (dict \<Rightarrow> error + backend) option"

section \<open>TemplateConfig\<close>

text \<open>
  An instance of \<^verbatim>\<open>TemplateConfig\<close>. \<open>dest_attr\<close> and \<open>context_attr\<close> are the instance
  attributes \<^verbatim>\<open>dest_\<close> and \<^verbatim>\<open>context_\<close>; \<open>None\<close> means that the instance has no attribute of
  its own, so a read falls through to the class attribute (\<^verbatim>\<open>None\<close> for \<^verbatim>\<open>dest_\<close>, the one
  dict \<^verbatim>\<open>TemplateConfig.context_\<close> shared by all instances for \<^verbatim>\<open>context_\<close>).
\<close>

record TemplateConfig =
  name :: string
  dest_attr :: "path option"
  context_attr :: "dict option"

text \<open>\<^verbatim>\<open>TemplateConfig.__init__(name, dest, context)\<close>; an omitted argument is \<open>PNone\<close>.\<close>

definition TemplateConfig_init :: "string \<Rightarrow> pyval \<Rightarrow> pyval \<Rightarrow> error + TemplateConfig" where
  "TemplateConfig_init nm dest ctx =
    (case (case dest of
             PNone \<Rightarrow> Inr None
           | PStr s \<Rightarrow>
               if is_absolute (Path s) then Inr (Some (Path s))
               else Inl (ImproperlyConfigured
                      [Lit ''In STATIC_TEMPLATES, template '', Val (PStr nm), Lit '' dest must be absolute!''])
           | PPath p \<Rightarrow>
               if is_absolute p then Inr (Some p)
               else Inl (ImproperlyConfigured
                      [Lit ''In STATIC_TEMPLATES, template '', Val (PStr nm), Lit '' dest must be absolute!''])
           | other \<Rightarrow>
               Inl (ImproperlyConfigured
                 [Lit ''Template '', Val (PStr nm),
                  Lit '' 'dest' parameter in STATIC_TEMPLATES must be a string or path-like object, not '',
                  TypeOf other])) of
       Inl err \<Rightarrow> Inl err
     | Inr d \<Rightarrow>
        (case ctx of
           PNone \<Rightarrow> Inr \<lparr>name = nm, dest_attr = d, context_attr = None\<rparr>
         | PDict c \<Rightarrow> Inr \<lparr>name = nm, dest_attr = d, context_attr = Some c\<rparr>
         | other \<Rightarrow>
             Inl (ImproperlyConfigured
               [Lit ''Template '', Val (PStr nm),
                Lit '' 'context' parameter in STATIC_TEMPLATES must be a dictionary, not '',
                TypeOf other])))"

text \<open>The property \<^verbatim>\<open>TemplateConfig.dest\<close>.\<close>

definition TemplateConfig_dest :: "TemplateConfig \<Rightarrow> path option" where
  "TemplateConfig_dest c = dest_attr c"

section \<open>The engine\<close>

text \<open>
  An instance of \<^verbatim>\<open>StaticTemplateEngine\<close>. \<open>config_attr\<close> is the dict that \<^verbatim>\<open>self.config_\<close>
  refers to (the class attribute \<^verbatim>\<open>{}\<close> until the instance has its own). The four
  \<^verbatim>\<open>cached_property\<close> values are stored on first successful access; the cached \<^verbatim>\<open>config\<close> is
  the very object \<^verbatim>\<open>self.config_\<close>, so one field holds it and \<open>config_cached\<close> says whether
  the property has been stored.

  The world holds what outlives an engine: the class attribute
  \<^verbatim>\<open>TemplateConfig.context_\<close>, and the file system: the directories and the files that
  exist, and \<open>faults\<close>, the calls that the operating system refuses for a reason the two
  lists do not show (permissions, a read-only or full device, a component of the path that
  is a file), each with the error it raises.
\<close>

datatype os_call = Exists | Makedirs | Open | Write

record engine =
  config_attr :: dict
  config_cached :: bool
  context_cached :: "dict option"
  templates_cached :: "(string \<times> TemplateConfig) list option"
  engines_cached :: "(pyval \<times> backend) list option"

record world =
  TemplateConfig_context_attr :: dict
  dirs :: "path list"
  files :: "(path \<times> string) list"
  faults :: "((os_call \<times> path) \<times> string) list"

text \<open>The property \<^verbatim>\<open>TemplateConfig.context\<close>: the instance attribute, else the
  class attribute.\<close>

definition TemplateConfig_context :: "world \<Rightarrow> TemplateConfig \<Rightarrow> dict" where
  "TemplateConfig_context w c =
     (case context_attr c of Some d \<Rightarrow> d | None \<Rightarrow> TemplateConfig_context_attr w)"

definition DEFAULT_ENGINE_CONFIG :: pyval where
  "DEFAULT_ENGINE_CONFIG =
    PList [PDict
      [(''BACKEND'', PStr ''render_static.backends.StaticDjangoTemplates''),
       (''DIRS'', PList []),
       (''OPTIONS'', PDict
          [(''loaders'', PList [PStr ''render_static.loaders.StaticAppDirectoriesLoader'']),
           (''builtins'', PList [PStr ''render_static.templatetags.render_static''])])]]"

text \<open>\<^verbatim>\<open>StaticTemplateEngine.__init__(config)\<close>: a falsy argument (\<^verbatim>\<open>None\<close> or \<^verbatim>\<open>{}\<close>) leaves
  the class attribute in place.\<close>

definition StaticTemplateEngine :: "dict option \<Rightarrow> engine" where
  "StaticTemplateEngine cfg =
    \<lparr>config_attr = (case cfg of None \<Rightarrow> [] | Some c \<Rightarrow> c),
     config_cached = False,
     context_cached = None,
     templates_cached = None,
     engines_cached = None\<rparr>"

text \<open>The property \<^verbatim>\<open>config\<close>.\<close>

definition config :: "host \<Rightarrow> engine \<Rightarrow> (error + dict) \<times> engine" where
  "config h e =
    (if config_cached e then (Inr (config_attr e), e)
     else
      (case (if config_attr e = [] then
               (case STATIC_TEMPLATES h of
                  None \<Rightarrow> Inl (ImproperlyConfigured
                             [Lit ''No STATIC_TEMPLATES configuration directive in settings!''])
                | Some st \<Rightarrow> Inr (e\<lparr>config_attr := (case st of None \<Rightarrow> [] | Some c \<Rightarrow> c)\<rparr>))
             else Inr e) of
         Inl err \<Rightarrow> (Inl err, e)
       | Inr e1 \<Rightarrow>
          (let unrecognized_keys =
                 filter (\<lambda>key. key \<notin> set [''ENGINES'', ''templates'', ''context''])
                   (map fst (config_attr e1))
           in if unrecognized_keys \<noteq> [] then
                (Inl (ImproperlyConfigured
                   [Lit ''Unrecognized STATIC_TEMPLATES configuration directives: '',
                    Val (PList (map PStr unrecognized_keys))]), e1)
              else (Inr (config_attr e1), e1\<lparr>config_cached := True\<rparr>))))"

text \<open>The property \<^verbatim>\<open>context\<close>: the global context.\<close>

definition context_prop :: "host \<Rightarrow> engine \<Rightarrow> (error + dict) \<times> engine" where
  "context_prop h e =
    (case context_cached e of
       Some c \<Rightarrow> (Inr c, e)
     | None \<Rightarrow>
        (case config h e of
           (Inl err, e1) \<Rightarrow> (Inl err, e1)
         | (Inr cfg, e1) \<Rightarrow>
            (case dict_get cfg ''context'' (PDict []) of
               PDict global_ctx \<Rightarrow>
                 (let c = dict_update [(''settings'', PSettings)] global_ctx
                  in (Inr c, e1\<lparr>context_cached := Some c\<rparr>))
             | _ \<Rightarrow>
                 (Inl (ImproperlyConfigured
                    [Lit ''STATIC_TEMPLATES 'context' configuration directive must be a dictionary!'']),
                  e1))))"

text \<open>
  The property \<^verbatim>\<open>templates\<close>. \<open>make_template_config\<close> is the call
  \<^verbatim>\<open>TemplateConfig(name=name, **config)\<close>: unpacking a value that is not a mapping, or
  one with a key that is no parameter of \<^verbatim>\<open>__init__\<close> (among them \<^verbatim>\<open>name\<close>, given twice),
  is a \<^verbatim>\<open>TypeError\<close>; reading \<^verbatim>\<open>.items()\<close> of a value that is not a dict is an
  \<^verbatim>\<open>AttributeError\<close>. Both are re-raised as \<^verbatim>\<open>ImproperlyConfigured\<close>.
\<close>

definition invalid_templates :: "exn \<Rightarrow> error" where
  "invalid_templates x =
     ImproperlyConfigured [Lit ''Invalid 'templates' in STATIC_TEMPLATE: '', Exn x, Lit ''!'']"

definition make_template_config :: "string \<Rightarrow> pyval \<Rightarrow> error + TemplateConfig" where
  "make_template_config nm cfg =
    (case cfg of
       PDict kw \<Rightarrow>
         if list_all (\<lambda>k. k = ''dest'' \<or> k = ''context'') (map fst kw)
         then TemplateConfig_init nm (dict_get kw ''dest'' PNone) (dict_get kw ''context'' PNone)
         else Inl (invalid_templates TypeError)
     | _ \<Rightarrow> Inl (invalid_templates TypeError))"

fun build_templates :: "dict \<Rightarrow> error + (string \<times> TemplateConfig) list" where
  "build_templates [] = Inr []"
| "build_templates ((nm, cfg) # rest) =
    (case make_template_config nm cfg of
       Inl err \<Rightarrow> Inl err
     | Inr tc \<Rightarrow>
        (case build_templates rest of
           Inl err \<Rightarrow> Inl err
         | Inr tcs \<Rightarrow> Inr ((nm, tc) # tcs)))"

definition templates :: "host \<Rightarrow> engine \<Rightarrow> (error + (string \<times> TemplateConfig) list) \<times> engine" where
  "templates h e =
    (case templates_cached e of
       Some ts \<Rightarrow> (Inr ts, e)
     | None \<Rightarrow>
        (case config h e of
           (Inl err, e1) \<Rightarrow> (Inl err, e1)
         | (Inr cfg, e1) \<Rightarrow>
            (case dict_get cfg ''templates'' (PDict []) of
               PDict items \<Rightarrow>
                 (case build_templates items of
                    Inl err \<Rightarrow> (Inl err, e1)
                  | Inr ts \<Rightarrow> (Inr ts, e1\<lparr>templates_cached := Some ts\<rparr>))
             | _ \<Rightarrow> (Inl (invalid_templates AttributeError), e1))))"

section \<open>Backend resolution\<close>

text \<open>\<^verbatim>\<open>s.rsplit(sep, maxsplit)\<close> for a one-character separator: split from the right, at
  most \<open>maxsplit\<close> times.\<close>

fun split_max :: "char \<Rightarrow> nat \<Rightarrow> string \<Rightarrow> string list" where
  "split_max c 0 s = [s]"
| "split_max c (Suc n) s =
    (if c \<in> set s
     then takeWhile (\<lambda>x. x \<noteq> c) s # split_max c n (tl (dropWhile (\<lambda>x. x \<noteq> c) s))
     else [s])"

definition rsplit :: "char \<Rightarrow> nat \<Rightarrow> string \<Rightarrow> string list" where
  "rsplit c n s = rev (map rev (split_max c n (rev s)))"

text \<open>\<^verbatim>\<open>sep.join(xs)\<close>, which raises \<^verbatim>\<open>TypeError\<close> on an item that is not a \<^verbatim>\<open>str\<close>.\<close>

fun join :: "string \<Rightarrow> string list \<Rightarrow> string" where
  "join sep [] = []"
| "join sep [x] = x"
| "join sep (x # y # ys) = x @ sep @ join sep (y # ys)"

fun str_items :: "pyval list \<Rightarrow> string list option" where
  "str_items [] = Some []"
| "str_items (PStr s # vs) = (case str_items vs of None \<Rightarrow> None | Some ss \<Rightarrow> Some (s # ss))"
| "str_items (_ # vs) = None"

text \<open>\<^verbatim>\<open>collections.Counter(xs)\<close> counts in order of first occurrence;
  \<^verbatim>\<open>most_common()\<close> sorts by count, highest first, and keeps that order among equal
  counts (a stable sort).\<close>

definition Counter :: "'a list \<Rightarrow> ('a \<times> nat) list" where
  "Counter xs = fold (\<lambda>x c. dict_set c x (dict_get c x 0 + 1)) xs []"

definition most_common :: "('a \<times> nat) list \<Rightarrow> ('a \<times> nat) list" where
  "most_common c = sort_key (\<lambda>(a, n). - int n) c"

text \<open>Iteration over a value: \<open>None\<close> when it has no \<^verbatim>\<open>__iter__\<close>. A dict yields its keys, a
  string its characters.\<close>

fun py_iter :: "pyval \<Rightarrow> pyval list option" where
  "py_iter (PList xs) = Some xs"
| "py_iter (PDict d) = Some (map (\<lambda>(k, v). PStr k) d)"
| "py_iter (PStr s) = Some (map (\<lambda>c. PStr [c]) s)"
| "py_iter _ = None"

text \<open>Lists and dicts cannot be dict keys. (Keys are compared with HOL equality; Python
  also identifies \<^verbatim>\<open>True\<close> with \<^verbatim>\<open>1\<close>, which nothing below depends on.)\<close>

fun hashable :: "pyval \<Rightarrow> bool" where
  "hashable (PList xs) = False"
| "hashable (PDict d) = False"
| "hashable _ = True"

text \<open>
  The body of the first loop of \<^verbatim>\<open>engines\<close> for one definition: the default alias from
  \<^verbatim>\<open>BACKEND\<close>, then the defaults overridden by the definition. The result is the alias
  \<^verbatim>\<open>backend['NAME']\<close> and the completed definition. Any exception of
  \<^verbatim>\<open>backend['BACKEND'].rsplit('.', 2)[-1]\<close> is caught, and the handler calls
  \<^verbatim>\<open>backend.get\<close>, which a value that is not a dict does not have.
\<close>

definition invalid_backend :: "pyval \<Rightarrow> error" where
  "invalid_backend v =
     ImproperlyConfigured
       [Lit ''Invalid BACKEND for a static template engine: '', Val v,
        Lit ''. Check your STATIC_TEMPLATES setting.'']"

definition backend_defaults :: "pyval \<Rightarrow> error + (pyval \<times> dict)" where
  "backend_defaults b =
    (case b of
       PDict bd \<Rightarrow>
        (case map_of bd ''BACKEND'' of
           Some (PStr s) \<Rightarrow>
             (let default_name = last (rsplit (CHR ''.'') 2 s);
                  bd' = dict_update
                          [(''NAME'', PStr default_name), (''DIRS'', PList []),
                           (''APP_DIRS'', PBool False), (''OPTIONS'', PDict [])] bd
              in case map_of bd' ''NAME'' of
                   None \<Rightarrow> Inl (Builtin KeyError)
                 | Some alias \<Rightarrow> Inr (alias, bd'))
         | Some v \<Rightarrow> Inl (invalid_backend v)
         | None \<Rightarrow> Inl (invalid_backend (PStr ''<not defined>'')))
     | _ \<Rightarrow> Inl (Builtin AttributeError))"

fun engines_loop ::
  "pyval list \<Rightarrow> (pyval \<times> dict) list \<Rightarrow> pyval list \<Rightarrow> error + ((pyval \<times> dict) list \<times> pyval list)" where
  "engines_loop [] engs backend_names = Inr (engs, backend_names)"
| "engines_loop (b # bs) engs backend_names =
    (case backend_defaults b of
       Inl err \<Rightarrow> Inl err
     | Inr (alias, bd) \<Rightarrow>
         if hashable alias
         then engines_loop bs (dict_set engs alias bd) (backend_names @ [alias])
         else Inl (Builtin TypeError))"

definition duplicates :: "pyval list \<Rightarrow> pyval list" where
  "duplicates backend_names =
     map fst (filter (\<lambda>(alias, count). count > 1) (most_common (Counter backend_names)))"

definition not_unique :: "string \<Rightarrow> error" where
  "not_unique joined =
     ImproperlyConfigured
       [Lit ''Template engine aliases are not unique, duplicates: '', Val (PStr joined),
        Lit ''. Set a unique NAME for each engine in settings.STATIC_TEMPLATES.'']"

text \<open>The last loop of \<^verbatim>\<open>engines\<close>: each definition is replaced, in place, by the backend
  built from it.\<close>

fun instantiate :: "host \<Rightarrow> (pyval \<times> dict) list \<Rightarrow> error + (pyval \<times> backend) list" where
  "instantiate h [] = Inr []"
| "instantiate h ((alias, cfg) # rest) =
    (case map_of cfg ''BACKEND'' of
       None \<Rightarrow> Inl (Builtin KeyError)
     | Some (PStr s) \<Rightarrow>
        (case import_string h s of
           None \<Rightarrow> Inl (ImportError s)
         | Some ctor \<Rightarrow>
            (case ctor (dict_pop cfg ''BACKEND'') of
               Inl err \<Rightarrow> Inl err
             | Inr inst \<Rightarrow>
                (case instantiate h rest of
                   Inl err \<Rightarrow> Inl err
                 | Inr insts \<Rightarrow> Inr ((alias, inst) # insts))))
     | Some _ \<Rightarrow> Inl (Builtin AttributeError))"

text \<open>Everything of \<^verbatim>\<open>engines\<close> after the check of \<^verbatim>\<open>ENGINES\<close>, on the value
  \<^verbatim>\<open>self.config.get('ENGINES', [])\<close>.\<close>

definition build_engines :: "host \<Rightarrow> pyval \<Rightarrow> error + (pyval \<times> backend) list" where
  "build_engines h engine_defs =
    (case py_iter engine_defs of
       None \<Rightarrow> Inl (Builtin TypeError)
     | Some bs \<Rightarrow>
        (case engines_loop bs [] [] of
           Inl err \<Rightarrow> Inl err
         | Inr (engs, backend_names) \<Rightarrow>
            (let dups = duplicates backend_names
             in if dups \<noteq> [] then
                  (case str_items dups of
                     None \<Rightarrow> Inl (Builtin TypeError)
                   | Some ss \<Rightarrow> Inl (not_unique (join '', '' ss)))
                else instantiate h engs)))"

text \<open>The property \<^verbatim>\<open>engines\<close>. When \<^verbatim>\<open>ENGINES\<close> is absent or \<^verbatim>\<open>None\<close> the default is
  stored into the dict that \<^verbatim>\<open>self.config\<close> returned, which is \<^verbatim>\<open>self.config_\<close>; the
  loop then reads \<^verbatim>\<open>ENGINES\<close> from that dict again.\<close>

definition engines :: "host \<Rightarrow> engine \<Rightarrow> (error + (pyval \<times> backend) list) \<times> engine" where
  "engines h e =
    (case engines_cached e of
       Some es \<Rightarrow> (Inr es, e)
     | None \<Rightarrow>
        (case config h e of
           (Inl err, e1) \<Rightarrow> (Inl err, e1)
         | (Inr cfg, e1) \<Rightarrow>
            (let engine_defs = dict_get cfg ''ENGINES'' PNone
             in case (if engine_defs = PNone then
                        Inr (e1\<lparr>config_attr := dict_set (config_attr e1) ''ENGINES'' DEFAULT_ENGINE_CONFIG\<rparr>)
                      else if py_iter engine_defs = None then
                        Inl (ImproperlyConfigured
                          [Lit ''ENGINES in STATIC_TEMPLATES setting must be an iterable containing engine configurations! Encountered: '',
                           TypeOf engine_defs])
                      else Inr e1) of
                  Inl err \<Rightarrow> (Inl err, e1)
                | Inr e2 \<Rightarrow>
                   (case build_engines h (dict_get (config_attr e2) ''ENGINES'' (PList [])) of
                      Inl err \<Rightarrow> (Inl err, e2)
                    | Inr es \<Rightarrow> (Inr es, e2\<lparr>engines_cached := Some es\<rparr>)))))"

text \<open>\<^verbatim>\<open>__getitem__\<close>, and \<^verbatim>\<open>all\<close>, which reads the aliases off \<^verbatim>\<open>self.engines\<close> and
  then fetches each one through \<^verbatim>\<open>__getitem__\<close>.\<close>

definition getitem :: "host \<Rightarrow> pyval \<Rightarrow> engine \<Rightarrow> (error + backend) \<times> engine" where
  "getitem h alias e =
    (case engines h e of
       (Inl err, e1) \<Rightarrow> (Inl err, e1)
     | (Inr es, e1) \<Rightarrow>
        (case map_of es alias of
           None \<Rightarrow>
             (Inl (InvalidTemplateEngineError
                [Lit (''Could not find config for '' @ [CHR 0x27]), Val alias,
                 Lit (CHR 0x27 # '' in settings.STATIC_TEMPLATES'')]), e1)
         | Some b \<Rightarrow> (Inr b, e1)))"

fun getitems :: "host \<Rightarrow> pyval list \<Rightarrow> engine \<Rightarrow> (error + backend list) \<times> engine" where
  "getitems h [] e = (Inr [], e)"
| "getitems h (alias # rest) e =
    (case getitem h alias e of
       (Inl err, e1) \<Rightarrow> (Inl err, e1)
     | (Inr b, e1) \<Rightarrow>
        (case getitems h rest e1 of
           (Inl err, e2) \<Rightarrow> (Inl err, e2)
         | (Inr bs, e2) \<Rightarrow> (Inr (b # bs), e2)))"

definition all :: "host \<Rightarrow> engine \<Rightarrow> (error + backend list) \<times> engine" where
  "all h e =
    (case engines h e of
       (Inl err, e1) \<Rightarrow> (Inl err, e1)
     | (Inr es, e1) \<Rightarrow> getitems h (map fst es) e1)"

section \<open>render\_to\_disk\<close>

text \<open>
  The lookup loop of \<^verbatim>\<open>render_to_disk\<close>. It has no \<^verbatim>\<open>break\<close>: every backend is asked,
  each success overwrites \<^verbatim>\<open>template\<close>, each \<^verbatim>\<open>TemplateDoesNotExist\<close> is appended to
  \<^verbatim>\<open>chain\<close>, and any other exception leaves the function.
\<close>

fun lookup_loop ::
  "backend list \<Rightarrow> string \<Rightarrow> template option \<Rightarrow> error list \<Rightarrow> error + (template option \<times> error list)" where
  "lookup_loop [] template_name t chain = Inr (t, chain)"
| "lookup_loop (b # bs) template_name t chain =
    (case get_template b template_name of
       Inr found \<Rightarrow> lookup_loop bs template_name (Some found) chain
     | Inl (TemplateDoesNotExist msg sub) \<Rightarrow>
         lookup_loop bs template_name t (chain @ [TemplateDoesNotExist msg sub])
     | Inl err \<Rightarrow> Inl err)"

text \<open>The choice of the destination. \<open>truthy\<close> is the test \<^verbatim>\<open>if dest:\<close> on the value of
  \<^verbatim>\<open>STATIC_ROOT\<close>: an empty string is false, a \<^verbatim>\<open>Path\<close> is always true.\<close>

fun truthy :: "str_or_path \<Rightarrow> bool" where
  "truthy (Str s) = (s \<noteq> [])"
| "truthy (Pth p) = True"

definition no_destination :: "string \<Rightarrow> error" where
  "no_destination template_name =
     ImproperlyConfigured
       [Lit ''Template '', Val (PStr template_name),
        Lit '' must either be configured with a 'dest' or STATIC_ROOT must be defined in settings, because it was not loaded from an app!'']"

definition resolve_dest ::
  "host \<Rightarrow> string \<Rightarrow> TemplateConfig \<Rightarrow> template \<Rightarrow> str_or_path option \<Rightarrow> error + path" where
  "resolve_dest h template_name cfg t dest_arg =
    (let app = origin_app t;
         d1 = (case dest_arg of
                 None \<Rightarrow> map_option Pth (TemplateConfig_dest cfg)
               | Some d \<Rightarrow> Some d)
     in case (case d1 of
                Some d \<Rightarrow> Inr d
              | None \<Rightarrow>
                 (case app of
                    Some a \<Rightarrow> Inr (Pth (Join (Join (Path (app_path a)) ''static'') template_name))
                  | None \<Rightarrow>
                     (case STATIC_ROOT h of
                        None \<Rightarrow> Inl (no_destination template_name)
                      | Some r \<Rightarrow>
                          if truthy r then Inr (Pth (Join (to_Path r) template_name))
                          else Inl (no_destination template_name)))) of
          Inl err \<Rightarrow> Inl err
        | Inr d \<Rightarrow> Inr (to_Path d))"

text \<open>
  \<^verbatim>\<open>ctx = config.context\<close> followed by \<^verbatim>\<open>ctx.update(context)\<close>. \<^verbatim>\<open>ctx\<close> is not a copy: it is
  the dict of the \<^verbatim>\<open>TemplateConfig\<close>, so the update lands in the class attribute when the
  instance has no context of its own, and otherwise in the instance held by the cached
  \<^verbatim>\<open>templates\<close>. That dict is also the one inside the configuration
  (\<^verbatim>\<open>config_['templates'][name]['context']\<close>), which \<open>set_template_context\<close> writes out.
\<close>

definition set_template_context :: "dict \<Rightarrow> string \<Rightarrow> dict \<Rightarrow> dict" where
  "set_template_context cfg nm c =
    (case map_of cfg ''templates'' of
       Some (PDict ts) \<Rightarrow>
        (case map_of ts nm of
           Some (PDict kw) \<Rightarrow>
             dict_set cfg ''templates'' (PDict (dict_set ts nm (PDict (dict_set kw ''context'' (PDict c)))))
         | _ \<Rightarrow> cfg)
     | _ \<Rightarrow> cfg)"

definition update_context ::
  "string \<Rightarrow> TemplateConfig \<Rightarrow> dict option \<Rightarrow> engine \<Rightarrow> world \<Rightarrow> dict \<times> engine \<times> world" where
  "update_context template_name cfg ctx_arg e w =
    (case ctx_arg of
       None \<Rightarrow> (TemplateConfig_context w cfg, e, w)
     | Some c \<Rightarrow>
        (case context_attr cfg of
           None \<Rightarrow>
             (let d = dict_update (TemplateConfig_context_attr w) c
              in (d, e, w\<lparr>TemplateConfig_context_attr := d\<rparr>))
         | Some own \<Rightarrow>
             (let d = dict_update own c
              in (d,
                  e\<lparr>config_attr := set_template_context (config_attr e) template_name d,
                    templates_cached :=
                      map_option (\<lambda>ts. dict_set ts template_name (cfg\<lparr>context_attr := Some d\<rparr>))
                        (templates_cached e)\<rparr>,
                  w))))"

text \<open>
  The file system. \<^verbatim>\<open>p.exists()\<close>; \<^verbatim>\<open>os.makedirs(p)\<close>, which raises when \<open>p\<close> exists or its
  parent is a file; \<^verbatim>\<open>open(p, 'w')\<close>, which creates or empties the file and raises when \<open>p\<close>
  is a directory or its parent is not one; and the write of the text, on leaving the
  \<^verbatim>\<open>with\<close> block. Each of them also raises what \<open>faults\<close> holds for it: the failures that the
  lists \<open>dirs\<close> and \<open>files\<close> do not determine (a directory that is not writable, a component
  further up that is a file, a full disk, a text that the encoding of the file cannot
  represent).
\<close>

definition path_exists :: "world \<Rightarrow> path \<Rightarrow> error + bool" where
  "path_exists w p =
    (case map_of (faults w) (Exists, p) of
       Some x \<Rightarrow> Inl (LibraryError x)
     | None \<Rightarrow> Inr (p \<in> set (dirs w) \<or> p \<in> set (map fst (files w))))"

definition makedirs :: "world \<Rightarrow> path \<Rightarrow> error + world" where
  "makedirs w p =
    (case map_of (faults w) (Makedirs, p) of
       Some x \<Rightarrow> Inl (LibraryError x)
     | None \<Rightarrow>
        if p \<in> set (dirs w) \<or> p \<in> set (map fst (files w)) then Inl (LibraryError ''FileExistsError'')
        else if Parent p \<in> set (map fst (files w)) then Inl (LibraryError ''NotADirectoryError'')
        else Inr (w\<lparr>dirs := dirs w @ [p]\<rparr>))"

definition open_write :: "world \<Rightarrow> path \<Rightarrow> error + world" where
  "open_write w p =
    (case map_of (faults w) (Open, p) of
       Some x \<Rightarrow> Inl (LibraryError x)
     | None \<Rightarrow>
        if p \<in> set (dirs w) then Inl (LibraryError ''IsADirectoryError'')
        else if Parent p \<in> set (map fst (files w)) then Inl (LibraryError ''NotADirectoryError'')
        else if Parent p \<in> set (dirs w) then Inr (w\<lparr>files := dict_set (files w) p []\<rparr>)
        else Inl (LibraryError ''FileNotFoundError''))"

definition write_file :: "world \<Rightarrow> path \<Rightarrow> string \<Rightarrow> error + world" where
  "write_file w p content =
    (case map_of (faults w) (Write, p) of
       Some x \<Rightarrow> Inl (LibraryError x)
     | None \<Rightarrow> Inr (w\<lparr>files := dict_set (files w) p content\<rparr>))"

text \<open>
  \<^verbatim>\<open>render_to_disk(template_name, context, dest)\<close>. The result is the exception raised or
  the path returned, with the engine and the world as the call leaves them. The override
  is written into the context before the file is opened; the file is opened (and so
  emptied) before \<^verbatim>\<open>self.context\<close> is read and the template rendered. No exception is
  caught after the lookup loop.
\<close>

definition render_to_disk ::
  "host \<Rightarrow> string \<Rightarrow> dict option \<Rightarrow> str_or_path option \<Rightarrow> engine \<Rightarrow> world
     \<Rightarrow> (error + path) \<times> engine \<times> world" where
  "render_to_disk h template_name ctx_arg dest_arg e w =
    (case templates h e of
       (Inl err, e1) \<Rightarrow> (Inl err, e1, w)
     | (Inr ts, e1) \<Rightarrow>
        (case TemplateConfig_init template_name PNone PNone of
           Inl err \<Rightarrow> (Inl err, e1, w)
         | Inr dflt \<Rightarrow>
            (let cfg = dict_get ts template_name dflt
             in case all h e1 of
                  (Inl err, e2) \<Rightarrow> (Inl err, e2, w)
                | (Inr backends, e2) \<Rightarrow>
                   (case lookup_loop backends template_name None [] of
                      Inl err \<Rightarrow> (Inl err, e2, w)
                    | Inr (None, chain) \<Rightarrow> (Inl (TemplateDoesNotExist template_name chain), e2, w)
                    | Inr (Some t, chain) \<Rightarrow>
                       (case resolve_dest h template_name cfg t dest_arg of
                          Inl err \<Rightarrow> (Inl err, e2, w)
                        | Inr d \<Rightarrow>
                           (case path_exists w (Parent d) of
                              Inl err \<Rightarrow> (Inl err, e2, w)
                            | Inr there \<Rightarrow>
                               (case (if there then Inr w else makedirs w (Parent d)) of
                                  Inl err \<Rightarrow> (Inl err, e2, w)
                                | Inr w1 \<Rightarrow>
                                   (let (ctx, e3, w2) = update_context template_name cfg ctx_arg e2 w1
                                    in case open_write w2 d of
                                         Inl err \<Rightarrow> (Inl err, e3, w2)
                                       | Inr w3 \<Rightarrow>
                                          (case context_prop h e3 of
                                             (Inl err, e4) \<Rightarrow> (Inl err, e4, w3)
                                           | (Inr global_ctx, e4) \<Rightarrow>
                                              (case render t (dict_update (dict_update [] global_ctx) ctx) of
                                                 Inl err \<Rightarrow> (Inl err, e4, w3)
                                               | Inr content \<Rightarrow>
                                                  (case write_file w3 d content of
                                                     Inl err \<Rightarrow> (Inl err, e4, w3)
                                                   | Inr w4 \<Rightarrow> (Inr d, e4, w4))))))))))))"

section \<open>Example configurations\<close>

text \<open>
  Concrete collaborators and configurations on which the theorems below are instantiated.
  The two backends both know \<^verbatim>\<open>t.html\<close>; only the second knows \<^verbatim>\<open>u.html\<close>. The templates
  render to a tag followed by the keys of the context they receive.
\<close>

definition ex_template_A :: template where
  "ex_template_A = \<lparr>origin_app = None, render = (\<lambda>c. Inr (''A:'' @ concat (map fst c)))\<rparr>"

definition ex_template_B :: template where
  "ex_template_B =
     \<lparr>origin_app = Some \<lparr>app_path = ''/srv/app''\<rparr>, render = (\<lambda>c. Inr (''B:'' @ concat (map fst c)))\<rparr>"

definition ex_backend_A :: backend where
  "ex_backend_A =
     \<lparr>get_template = (\<lambda>n. if n = ''t.html'' then Inr ex_template_A
                           else Inl (TemplateDoesNotExist n []))\<rparr>"

definition ex_backend_B :: backend where
  "ex_backend_B =
     \<lparr>get_template = (\<lambda>n. if n = ''t.html'' \<or> n = ''u.html'' then Inr ex_template_B
                           else Inl (TemplateDoesNotExist n []))\<rparr>"

definition ex_import :: "string \<Rightarrow> (dict \<Rightarrow> error + backend) option" where
  "ex_import s =
     (if s = ''pkg.A'' then Some (\<lambda>params. Inr ex_backend_A)
      else if s = ''pkg.B'' then Some (\<lambda>params. Inr ex_backend_B)
      else None)"

definition ex_host :: host where
  "ex_host = \<lparr>STATIC_TEMPLATES = None, STATIC_ROOT = Some (Str ''/static''), import_string = ex_import\<rparr>"

definition ex_world :: world where
  "ex_world = \<lparr>TemplateConfig_context_attr = [], dirs = [], files = [], faults = []\<rparr>"

definition ex_engines :: pyval where
  "ex_engines = PList [PDict [(''BACKEND'', PStr ''pkg.A'')], PDict [(''BACKEND'', PStr ''pkg.B'')]]"

definition ex_config :: dict where
  "ex_config =
     [(''ENGINES'', ex_engines),
      (''context'', PDict [(''a'', PInt 1), (''b'', PInt 2)]),
      (''templates'', PDict [(''t.html'', PDict [(''context'', PDict [(''b'', PInt 3), (''c'', PInt 4)])])])]"

definition ex_engine :: engine where
  "ex_engine = StaticTemplateEngine (Some ex_config)"

definition ex_template_configs :: "(string \<times> TemplateConfig) list" where
  "ex_template_configs =
     [(''t.html'', \<lparr>name = ''t.html'', dest_attr = None,
                    context_attr = Some [(''b'', PInt 3), (''c'', PInt 4)]\<rparr>)]"

definition ex_backends :: "(pyval \<times> backend) list" where
  "ex_backends = [(PStr ''A'', ex_backend_A), (PStr ''B'', ex_backend_B)]"

text \<open>The example engine after its \<^verbatim>\<open>templates\<close> have been read, and after its \<^verbatim>\<open>engines\<close>
  have been read as well.\<close>

definition ex_engine_templates :: engine where
  "ex_engine_templates =
     ex_engine\<lparr>config_cached := True, templates_cached := Some ex_template_configs\<rparr>"

definition ex_engine_ready :: engine where
  "ex_engine_ready = ex_engine_templates\<lparr>engines_cached := Some ex_backends\<rparr>"





section \<open>Dictionaries and the cached configuration\<close>

lemma map_of_dict_set: "map_of (dict_set d k v) = (map_of d)(k \<mapsto> v)"
  by (simp add: dict_set_def update_conv')

lemma keys_dict_set: "fst ` set (dict_set d k v) = insert k (fst ` set d)"
  by (simp add: dict_set_def update_conv' flip: dom_map_of_conv_image_fst)

lemma distinct_dict_set: "distinct (map fst d) \<Longrightarrow> distinct (map fst (dict_set d k v))"
  by (simp add: dict_set_def distinct_update)

lemma dict_update_Nil: "dict_update d [] = d"
  by (simp add: dict_update_def)

lemma dict_update_Cons: "dict_update d ((k, v) # other) = dict_update (dict_set d k v) other"
  by (simp add: dict_update_def)

lemma keys_dict_update: "fst ` set (dict_update d other) = fst ` set d \<union> fst ` set other"
proof (induction other arbitrary: d)
  case Nil
  show ?case by (simp add: dict_update_Nil)
next
  case (Cons kv other)
  obtain k v where kv: "kv = (k, v)" by (cases kv)
  show ?case unfolding kv dict_update_Cons Cons.IH keys_dict_set by auto
qed

lemma map_of_dict_update:
  "distinct (map fst other) \<Longrightarrow> map_of (dict_update d other) = map_of d ++ map_of other"
proof (induction other arbitrary: d)
  case Nil
  show ?case by (simp add: dict_update_Nil)
next
  case (Cons kv other)
  obtain k v where kv: "kv = (k, v)" by (cases kv)
  from Cons.prems have k: "k \<notin> fst ` set other" and d: "distinct (map fst other)"
    by (auto simp: kv)
  have "map_of other k = None" using k by (simp add: map_of_eq_None_iff)
  then have "(map_of d)(k \<mapsto> v) ++ map_of other = (map_of d ++ map_of other)(k \<mapsto> v)"
    by (auto simp: map_add_def fun_eq_iff split: option.splits)
  moreover have "map_of ((k, v) # other) = (map_of other)(k \<mapsto> v)"
    by (simp add: fun_eq_iff)
  ultimately show ?case
    unfolding kv dict_update_Cons Cons.IH [OF d] map_of_dict_set
    by (simp only: map_add_upd)
qed

lemma distinct_dict_update: "distinct (map fst d) \<Longrightarrow> distinct (map fst (dict_update d other))"
proof (induction other arbitrary: d)
  case Nil
  then show ?case by (simp add: dict_update_Nil)
next
  case (Cons kv other)
  obtain k v where kv: "kv = (k, v)" by (cases kv)
  show ?case unfolding kv dict_update_Cons
    by (rule Cons.IH) (rule distinct_dict_set [OF Cons.prems])
qed

lemma config_cached_read: "config_cached e \<Longrightarrow> config h e = (Inr (config_attr e), e)"
  by (simp add: config_def)

lemma config_Inr:
  assumes "config h e = (Inr cfg, e1)"
  shows "config_attr e1 = cfg" and "config_cached e1"
    and "context_cached e1 = context_cached e" and "templates_cached e1 = templates_cached e"
    and "engines_cached e1 = engines_cached e"
  using assms
  by (auto simp: config_def Let_def split: if_splits option.splits sum.splits)

lemma config_Inl:
  assumes "config h e = (Inl err, e1)"
  shows "\<not> config_cached e1"
    and "context_cached e1 = context_cached e" and "templates_cached e1 = templates_cached e"
    and "engines_cached e1 = engines_cached e"
  using assms
  by (auto simp: config_def Let_def split: if_splits option.splits sum.splits)

lemma config_uncached:
  assumes "\<not> config_cached e"
    and "(if config_attr e \<noteq> [] then Some (config_attr e)
          else map_option (\<lambda>st. case st of None \<Rightarrow> [] | Some d \<Rightarrow> d) (STATIC_TEMPLATES h)) = Some c"
  shows "config h e =
          (if filter (\<lambda>k. k \<notin> set [''ENGINES'', ''templates'', ''context'']) (map fst c) \<noteq> [] then
             (Inl (ImproperlyConfigured
               [Lit ''Unrecognized STATIC_TEMPLATES configuration directives: '',
                Val (PList (map PStr (filter (\<lambda>k. k \<notin> set [''ENGINES'', ''templates'', ''context'']) (map fst c))))]),
              e\<lparr>config_attr := c\<rparr>)
           else (Inr c, e\<lparr>config_attr := c, config_cached := True\<rparr>))"
proof (cases "config_attr e = []")
  case True
  with assms(2) obtain st where st: "STATIC_TEMPLATES h = Some st"
    and c: "c = (case st of None \<Rightarrow> [] | Some d \<Rightarrow> d)"
    by auto
  show ?thesis
    unfolding config_def Let_def using assms(1) True st c by simp
next
  case False
  with assms(2) have c: "config_attr e = c" by simp
  have e: "e\<lparr>config_attr := c\<rparr> = e" using c by simp
  show ?thesis
    unfolding config_def Let_def e using assms(1) False c by simp
qed

lemma fresh_engine_fields:
  "config_attr (StaticTemplateEngine (Some c)) = c"
  "\<not> config_cached (StaticTemplateEngine x)"
  "context_cached (StaticTemplateEngine x) = None"
  "templates_cached (StaticTemplateEngine x) = None"
  "engines_cached (StaticTemplateEngine x) = None"
  by (simp_all add: StaticTemplateEngine_def)

lemma fresh_config_read:
  assumes c: "c \<noteq> []"
    and ok: "list_all (\<lambda>k. k \<in> set [''ENGINES'', ''templates'', ''context'']) (map fst c)"
  shows "config h (StaticTemplateEngine (Some c)) =
           (Inr c, (StaticTemplateEngine (Some c))\<lparr>config_cached := True\<rparr>)"
proof -
  let ?e = "StaticTemplateEngine (Some c)"
  have nb: "filter (\<lambda>k. k \<notin> set [''ENGINES'', ''templates'', ''context'']) (map fst c) = []"
    using ok unfolding filter_empty_conv list_all_iff by blast
  have B: "(if config_attr ?e \<noteq> [] then Some (config_attr ?e)
            else map_option (\<lambda>st. case st of None \<Rightarrow> [] | Some d \<Rightarrow> d) (STATIC_TEMPLATES h)) = Some c"
    using c by (simp add: fresh_engine_fields)
  have same: "?e\<lparr>config_attr := c\<rparr> = ?e"
    by (simp add: StaticTemplateEngine_def)
  show ?thesis
    unfolding config_uncached [OF fresh_engine_fields(2) B] nb same by simp
qed

lemma dict_get_hit: "map_of d k = Some v \<Longrightarrow> dict_get d k dflt = v"
  by (simp add: dict_get_def)


lemma context_prop_uncached:
  assumes "context_cached e = None"
    and "config h e = (Inr cfg, e1)"
    and "dict_get cfg ''context'' (PDict []) = PDict g"
  shows "context_prop h e =
           (Inr (dict_update [(''settings'', PSettings)] g),
            e1\<lparr>context_cached := Some (dict_update [(''settings'', PSettings)] g)\<rparr>)"
  unfolding context_prop_def Let_def using assms by simp

section \<open>The engines property\<close>

lemma dict_get_dict_set: "dict_get (dict_set d k v) k dflt = v"
  by (simp add: dict_get_def map_of_dict_set)

lemma engines_uncached_default:
  assumes "engines_cached e = None"
    and "config h e = (Inr cfg, e1)"
    and "map_of cfg ''ENGINES'' = None \<or> map_of cfg ''ENGINES'' = Some PNone"
  shows "engines h e =
    (case build_engines h DEFAULT_ENGINE_CONFIG of
       Inl err \<Rightarrow> (Inl err, e1\<lparr>config_attr := dict_set cfg ''ENGINES'' DEFAULT_ENGINE_CONFIG\<rparr>)
     | Inr es \<Rightarrow>
         (Inr es, e1\<lparr>config_attr := dict_set cfg ''ENGINES'' DEFAULT_ENGINE_CONFIG,
                      engines_cached := Some es\<rparr>))"
proof -
  have g: "dict_get cfg ''ENGINES'' PNone = PNone"
    using assms(3) by (auto simp: dict_get_def)
  have a: "config_attr e1 = cfg" by (rule config_Inr(1) [OF assms(2)])
  show ?thesis
    unfolding engines_def Let_def
    by (simp add: assms(1,2) g a dict_get_dict_set split: sum.splits)
qed

lemma engines_uncached_given:
  assumes "engines_cached e = None"
    and "config h e = (Inr cfg, e1)"
    and "map_of cfg ''ENGINES'' = Some v" and "v \<noteq> PNone" and "py_iter v = Some bs"
  shows "engines h e =
    (case build_engines h v of
       Inl err \<Rightarrow> (Inl err, e1)
     | Inr es \<Rightarrow> (Inr es, e1\<lparr>engines_cached := Some es\<rparr>))"
proof -
  have g: "dict_get cfg ''ENGINES'' d = v" for d
    using assms(3) by (simp add: dict_get_def)
  have a: "config_attr e1 = cfg" by (rule config_Inr(1) [OF assms(2)])
  show ?thesis
    unfolding engines_def Let_def
    by (simp add: assms(1,2,4,5) g a split: sum.splits)
qed

section \<open>rsplit\<close>

lemma split_max_nonempty: "split_max c n s \<noteq> []"
  by (cases n) auto

lemma hd_split_max: "hd (split_max c (Suc n) s) = takeWhile (\<lambda>x. x \<noteq> c) s"
proof (cases "c \<in> set s")
  case True
  then show ?thesis by simp
next
  case False
  then have "takeWhile (\<lambda>x. x \<noteq> c) s = s"
    by (induction s) auto
  then show ?thesis using False by (simp del: takeWhile_eq_all_conv)
qed

lemma last_rsplit:
  "0 < n \<Longrightarrow> last (rsplit c n s) = rev (takeWhile (\<lambda>x. x \<noteq> c) (rev s))"
proof -
  assume "0 < n"
  then obtain m where n: "n = Suc m" by (cases n) auto
  have "last (rsplit c n s) = hd (map rev (split_max c n (rev s)))"
    unfolding rsplit_def by (simp add: last_rev split_max_nonempty)
  also have "\<dots> = rev (hd (split_max c n (rev s)))"
    by (simp add: hd_map split_max_nonempty)
  finally show ?thesis unfolding n hd_split_max .
qed

section \<open>Counter and duplicates\<close>











section \<open>Aliases and backends\<close>





lemma engines_Inr_cached:
  assumes "engines h e = (Inr es, e')"
  shows "engines_cached e' = Some es"
proof (cases "engines_cached e")
  case (Some es0)
  with assms show ?thesis by (simp add: engines_def)
next
  case None
  obtain r e1 where c: "config h e = (r, e1)" by (cases "config h e")
  show ?thesis
  proof (cases r)
    case (Inl err)
    with assms None c show ?thesis by (simp add: engines_def)
  next
    case (Inr cfg)
    with assms None c show ?thesis
      by (auto simp: engines_def Let_def split: if_splits sum.splits)
  qed
qed

lemma engines_cached_read: "engines_cached e = Some es \<Longrightarrow> engines h e = (Inr es, e)"
  by (simp add: engines_def)

lemma getitem_cached:
  "engines_cached e = Some es \<Longrightarrow> map_of es alias = Some b \<Longrightarrow> getitem h alias e = (Inr b, e)"
  by (simp add: getitem_def engines_cached_read)

lemma getitems_cached:
  assumes "engines_cached e = Some es" and "distinct (map fst es)"
  shows "set zs \<subseteq> set es \<Longrightarrow> getitems h (map fst zs) e = (Inr (map snd zs), e)"
proof (induction zs)
  case Nil
  show ?case by simp
next
  case (Cons z zs)
  obtain k b where z: "z = (k, b)" by (cases z)
  from Cons.prems have "(k, b) \<in> set es" by (simp add: z)
  then have m: "map_of es k = Some b" using assms(2) by simp
  from Cons.prems have "set zs \<subseteq> set es" by simp
  then show ?case
    by (simp add: z getitem_cached [OF assms(1) m] Cons.IH)
qed

lemma all_of_engines:
  assumes "engines h e = (Inr es, e')" and "distinct (map fst es)"
  shows "all h e = (Inr (map snd es), e')"
  unfolding all_def assms(1)
  using getitems_cached [OF engines_Inr_cached [OF assms(1)] assms(2), of es h] by simp

lemma templates_uncached:
  assumes "templates_cached e = None"
    and "config h e = (Inr cfg, e1)"
    and "dict_get cfg ''templates'' (PDict []) = PDict items"
    and "build_templates items = Inr ts"
  shows "templates h e = (Inr ts, e1\<lparr>templates_cached := Some ts\<rparr>)"
  unfolding templates_def using assms by simp

lemma templates_cached_read: "templates_cached e = Some ts \<Longrightarrow> templates h e = (Inr ts, e)"
  by (simp add: templates_def)

lemma ex_backend_defaults:
  "backend_defaults (PDict [(''BACKEND'', PStr ''pkg.A'')]) =
     Inr (PStr ''A'', [(''NAME'', PStr ''A''), (''DIRS'', PList []), (''APP_DIRS'', PBool False),
                       (''OPTIONS'', PDict []), (''BACKEND'', PStr ''pkg.A'')])"
  "backend_defaults (PDict [(''BACKEND'', PStr ''pkg.B'')]) =
     Inr (PStr ''B'', [(''NAME'', PStr ''B''), (''DIRS'', PList []), (''APP_DIRS'', PBool False),
                       (''OPTIONS'', PDict []), (''BACKEND'', PStr ''pkg.B'')])"
  by (simp_all add: backend_defaults_def Let_def last_rsplit dict_update_def dict_set_def)

lemma ex_duplicates: "duplicates [PStr ''A'', PStr ''B''] = []"
  by (simp add: duplicates_def most_common_def Counter_def dict_set_def dict_get_def)

lemma ex_build_engines:
  "build_engines ex_host ex_engines = Inr ex_backends"
  by (simp add: ex_backends_def build_engines_def ex_engines_def ex_backend_defaults ex_duplicates dict_set_def
      ex_host_def ex_import_def dict_pop_def)

section \<open>The example engine, step by step\<close>

lemma ex_config_facts:
  "ex_config \<noteq> []"
  "list_all (\<lambda>k. k \<in> set [''ENGINES'', ''templates'', ''context'']) (map fst ex_config)"
  "map_of ex_config ''ENGINES'' = Some ex_engines"
  "map_of ex_config ''context'' = Some (PDict [(''a'', PInt 1), (''b'', PInt 2)])"
  "map_of ex_config ''templates'' =
     Some (PDict [(''t.html'', PDict [(''context'', PDict [(''b'', PInt 3), (''c'', PInt 4)])])])"
  by (simp_all add: ex_config_def)

lemma ex_config_read:
  "config h ex_engine = (Inr ex_config, ex_engine\<lparr>config_cached := True\<rparr>)"
  unfolding ex_engine_def by (rule fresh_config_read [OF ex_config_facts(1,2)])

lemma ex_build_templates:
  "build_templates [(''t.html'', PDict [(''context'', PDict [(''b'', PInt 3), (''c'', PInt 4)])])] =
     Inr ex_template_configs"
  by (simp add: make_template_config_def TemplateConfig_init_def dict_get_def ex_template_configs_def)

lemma ex_templates:
  "templates h ex_engine = (Inr ex_template_configs, ex_engine_templates)"
proof -
  have 1: "templates_cached ex_engine = None"
    unfolding ex_engine_def by (rule fresh_engine_fields)
  have 3: "dict_get ex_config ''templates'' (PDict []) =
             PDict [(''t.html'', PDict [(''context'', PDict [(''b'', PInt 3), (''c'', PInt 4)])])]"
    by (rule dict_get_hit [OF ex_config_facts(5)])
  show ?thesis
    unfolding templates_uncached [OF 1 ex_config_read 3 ex_build_templates] ex_engine_templates_def
    by simp
qed

lemma ex_engines_read:
  "engines ex_host ex_engine_templates = (Inr ex_backends, ex_engine_ready)"
proof -
  have 1: "engines_cached ex_engine_templates = None"
    by (simp add: ex_engine_templates_def ex_engine_def fresh_engine_fields)
  have c: "config_cached ex_engine_templates"
    by (simp add: ex_engine_templates_def)
  have a: "config_attr ex_engine_templates = ex_config"
    by (simp add: ex_engine_templates_def ex_engine_def fresh_engine_fields)
  have 2: "config ex_host ex_engine_templates = (Inr ex_config, ex_engine_templates)"
    using config_cached_read [OF c, of ex_host] unfolding a .
  have 4: "ex_engines \<noteq> PNone" and 5: "py_iter ex_engines = Some [PDict [(''BACKEND'', PStr ''pkg.A'')], PDict [(''BACKEND'', PStr ''pkg.B'')]]"
    by (simp_all add: ex_engines_def)
  show ?thesis
    unfolding engines_uncached_given [OF 1 2 ex_config_facts(3) 4 5] ex_build_engines
      ex_engine_ready_def by simp
qed

lemma ex_all:
  "all ex_host ex_engine_templates = (Inr [ex_backend_A, ex_backend_B], ex_engine_ready)"
proof -
  have d: "distinct (map fst ex_backends)" by (simp add: ex_backends_def)
  show ?thesis
    using all_of_engines [OF ex_engines_read d] by (simp add: ex_backends_def)
qed

lemma ex_context_prop:
  "context_prop ex_host ex_engine_ready =
     (Inr [(''settings'', PSettings), (''a'', PInt 1), (''b'', PInt 2)],
      ex_engine_ready\<lparr>context_cached := Some [(''settings'', PSettings), (''a'', PInt 1), (''b'', PInt 2)]\<rparr>)"
proof -
  have 1: "context_cached ex_engine_ready = None"
    by (simp add: ex_engine_ready_def ex_engine_templates_def ex_engine_def fresh_engine_fields)
  have c: "config_cached ex_engine_ready"
    by (simp add: ex_engine_ready_def ex_engine_templates_def)
  have a: "config_attr ex_engine_ready = ex_config"
    by (simp add: ex_engine_ready_def ex_engine_templates_def ex_engine_def fresh_engine_fields)
  have 2: "config ex_host ex_engine_ready = (Inr ex_config, ex_engine_ready)"
    using config_cached_read [OF c, of ex_host] unfolding a .
  have 3: "dict_get ex_config ''context'' (PDict []) = PDict [(''a'', PInt 1), (''b'', PInt 2)]"
    by (rule dict_get_hit [OF ex_config_facts(4)])
  have 4: "dict_update [(''settings'', PSettings)] [(''a'', PInt 1), (''b'', PInt 2)] =
             [(''settings'', PSettings), (''a'', PInt 1), (''b'', PInt 2)]"
    by (simp add: dict_update_def dict_set_def)
  show ?thesis
    unfolding context_prop_uncached [OF 1 2 3] 4 ..
qed

section \<open>The lookup loop\<close>

lemma default_TemplateConfig:
  "TemplateConfig_init nm PNone PNone = Inr \<lparr>name = nm, dest_attr = None, context_attr = None\<rparr>"
  by (simp add: TemplateConfig_init_def)

lemma lookup_loop_all_miss:
  assumes "\<forall>b \<in> set bs. \<exists>m c. get_template b nm = Inl (TemplateDoesNotExist m c)"
  shows "\<exists>misses. lookup_loop bs nm t chain = Inr (t, chain @ misses)
           \<and> list_all2 (\<lambda>b miss. get_template b nm = Inl miss) bs misses"
  using assms
proof (induction bs arbitrary: chain)
  case Nil
  show ?case by simp
next
  case (Cons b bs)
  from Cons.prems obtain m c where b: "get_template b nm = Inl (TemplateDoesNotExist m c)"
    by auto
  from Cons.prems have "\<forall>b \<in> set bs. \<exists>m c. get_template b nm = Inl (TemplateDoesNotExist m c)"
    by simp
  from Cons.IH [OF this, of "chain @ [TemplateDoesNotExist m c]"]
  obtain misses where l: "lookup_loop bs nm t (chain @ [TemplateDoesNotExist m c]) =
                            Inr (t, (chain @ [TemplateDoesNotExist m c]) @ misses)"
    and a: "list_all2 (\<lambda>b miss. get_template b nm = Inl miss) bs misses"
    by blast
  have "lookup_loop (b # bs) nm t chain = Inr (t, chain @ (TemplateDoesNotExist m c # misses))"
    by (simp add: b l)
  moreover have "list_all2 (\<lambda>b miss. get_template b nm = Inl miss) (b # bs)
                   (TemplateDoesNotExist m c # misses)"
    using a b by simp
  ultimately show ?case by blast
qed

lemma render_to_disk_not_found:
  assumes "templates h e = (Inr ts, e1)"
    and "all h e1 = (Inr backends, e2)"
    and "lookup_loop backends nm None [] = Inr (None, chain)"
  shows "render_to_disk h nm ctx_arg dest_arg e w = (Inl (TemplateDoesNotExist nm chain), e2, w)"
  unfolding render_to_disk_def Let_def
  by (simp add: assms default_TemplateConfig)

section \<open>The context after an override\<close>

lemma set_template_context_keys: "map fst (set_template_context cfg nm d) = map fst cfg"
proof -
  have "map_of cfg ''templates'' = Some v \<Longrightarrow> ''templates'' \<in> set (map fst cfg)" for v
    by (metis map_of_eq_None_iff option.distinct(1) set_map)
  then show ?thesis
    by (auto simp: set_template_context_def dict_set_def update_keys
        split: option.splits pyval.splits)
qed

lemma set_template_context_context:
  "map_of (set_template_context cfg nm d) ''context'' = map_of cfg ''context''"
  by (simp add: set_template_context_def map_of_dict_set split: option.splits pyval.splits)

lemma set_template_context_Nil: "set_template_context cfg nm d = [] \<longleftrightarrow> cfg = []"
  using set_template_context_keys [of cfg nm d] by (metis map_is_Nil_conv)

lemma config_after_update:
  "map_prod (map_sum id (\<lambda>c. (map fst c, map_of c ''context''))) context_cached
     (config h (e\<lparr>config_attr := set_template_context (config_attr e) nm d, templates_cached := x\<rparr>)) =
   map_prod (map_sum id (\<lambda>c. (map fst c, map_of c ''context''))) context_cached (config h e)"
proof (cases "config_cached e")
  case True
  then show ?thesis
    by (simp add: config_def set_template_context_keys set_template_context_context)
next
  case False
  show ?thesis
  proof (cases "config_attr e = []")
    case True
    then have "set_template_context (config_attr e) nm d = []"
      by (simp add: set_template_context_Nil)
    with True \<open>\<not> config_cached e\<close> show ?thesis
      by (simp add: config_def Let_def split: option.splits)
  next
    case ne: False
    then have ne': "set_template_context (config_attr e) nm d \<noteq> []"
      by (simp add: set_template_context_Nil)
    show ?thesis
      using False ne ne'
      by (simp add: config_def Let_def set_template_context_keys set_template_context_context)
  qed
qed

lemma context_prop_after_update:
  "fst (context_prop h (e\<lparr>config_attr := set_template_context (config_attr e) nm d,
                          templates_cached := x\<rparr>)) =
   fst (context_prop h e)"
proof (cases "context_cached e")
  case (Some c)
  then show ?thesis by (simp add: context_prop_def)
next
  case None
  let ?e' = "e\<lparr>config_attr := set_template_context (config_attr e) nm d, templates_cached := x\<rparr>"
  obtain r e1 where c: "config h e = (r, e1)" by (cases "config h e")
  obtain r' e1' where c': "config h ?e' = (r', e1')" by (cases "config h ?e'")
  from config_after_update [where h = h and e = e and nm = nm and d = d and x = x]
  have rel: "map_sum id (\<lambda>c. (map fst c, map_of c ''context'')) r' =
             map_sum id (\<lambda>c. (map fst c, map_of c ''context'')) r"
    unfolding c c' by simp
  show ?thesis
  proof (cases r)
    case (Inl err)
    with rel have "r' = Inl err" by (cases r') simp_all
    with Inl None c c' show ?thesis by (simp add: context_prop_def)
  next
    case (Inr cfg)
    with rel obtain cfg' where r': "r' = Inr cfg'"
      and m: "map_of cfg' ''context'' = map_of cfg ''context''"
      by (cases r') simp_all
    have "dict_get cfg' ''context'' (PDict []) = dict_get cfg ''context'' (PDict [])"
      by (simp add: dict_get_def m)
    with Inr r' None c c' show ?thesis
      by (simp add: context_prop_def Let_def split: pyval.splits)
  qed
qed

lemma context_prop_update_context:
  assumes "update_context nm cfg ctx_arg e w = (ctx, e', w')"
  shows "fst (context_prop h e') = fst (context_prop h e)"
proof (cases ctx_arg)
  case None
  with assms show ?thesis by (simp add: update_context_def)
next
  case (Some c)
  show ?thesis
  proof (cases "context_attr cfg")
    case None
    with Some assms show ?thesis by (auto simp: update_context_def Let_def)
  next
    case own: (Some d)
    with Some assms have "e' = e\<lparr>config_attr := set_template_context (config_attr e) nm (dict_update d c),
                     templates_cached := map_option (\<lambda>ts. dict_set ts nm (cfg\<lparr>context_attr := Some (dict_update d c)\<rparr>))
                        (templates_cached e)\<rparr>"
      by (auto simp: update_context_def Let_def)
    then show ?thesis by (simp only: context_prop_after_update)
  qed
qed

lemma context_prop_keeps_caches:
  "templates_cached (snd (context_prop h e)) = templates_cached e"
  "engines_cached (snd (context_prop h e)) = engines_cached e"
proof -
  obtain r e1 where c: "config h e = (r, e1)" by (cases "config h e")
  have k: "templates_cached e1 = templates_cached e \<and> engines_cached e1 = engines_cached e"
    using c config_Inr(4,5) [of h e _ e1] config_Inl(3,4) [of h e _ e1] by (cases r) auto
  show "templates_cached (snd (context_prop h e)) = templates_cached e"
    using k by (auto simp: context_prop_def c Let_def split: option.splits sum.splits pyval.splits)
  show "engines_cached (snd (context_prop h e)) = engines_cached e"
    using k by (auto simp: context_prop_def c Let_def split: option.splits sum.splits pyval.splits)
qed

lemma update_context_ctx:
  assumes "update_context nm cfg ctx_arg e w = (ctx, e', w')"
  shows "ctx = dict_update (TemplateConfig_context w cfg) (case ctx_arg of None \<Rightarrow> [] | Some c \<Rightarrow> c)"
  using assms
  by (auto simp: update_context_def TemplateConfig_context_def Let_def dict_update_Nil
      split: option.splits)

lemma update_context_world:
  assumes "update_context nm cfg ctx_arg e w = (ctx, e', w')"
  shows "dirs w' = dirs w" and "files w' = files w" and "faults w' = faults w"
  using assms
  by (auto simp: update_context_def Let_def split: option.splits)

lemma update_context_class_attr:
  assumes "update_context nm cfg ctx_arg e w = (ctx, e', w')"
  shows "TemplateConfig_context w cfg = TemplateConfig_context w0 cfg \<Longrightarrow>
         ctx = dict_update (TemplateConfig_context w0 cfg) (case ctx_arg of None \<Rightarrow> [] | Some c \<Rightarrow> c)"
  using update_context_ctx [OF assms] by simp

lemma render_to_disk_no_dest:
  assumes "templates h e = (Inr ts, e1)"
    and "all h e1 = (Inr backends, e2)"
    and "lookup_loop backends nm None [] = Inr (Some t, chain)"
    and "resolve_dest h nm (dict_get ts nm \<lparr>name = nm, dest_attr = None, context_attr = None\<rparr>) t dest_arg = Inl err"
  shows "render_to_disk h nm ctx_arg dest_arg e w = (Inl err, e2, w)"
  unfolding render_to_disk_def Let_def
  by (simp add: assms default_TemplateConfig)

lemma resolve_dest_cases:
  "resolve_dest h nm (dict_get ts nm \<lparr>name = nm, dest_attr = None, context_attr = None\<rparr>) t dest_arg =
     (case dest_arg of
        Some d \<Rightarrow> Inr (to_Path d)
      | None \<Rightarrow>
         (case Option.bind (map_of ts nm) TemplateConfig_dest of
            Some p \<Rightarrow> Inr p
          | None \<Rightarrow>
             (case origin_app t of
                Some a \<Rightarrow> Inr (Join (Join (Path (app_path a)) ''static'') nm)
              | None \<Rightarrow>
                 (case STATIC_ROOT h of
                    None \<Rightarrow> Inl (no_destination nm)
                  | Some r \<Rightarrow>
                      if truthy r then Inr (Join (to_Path r) nm) else Inl (no_destination nm)))))"
proof -
  have d: "TemplateConfig_dest (dict_get ts nm \<lparr>name = nm, dest_attr = None, context_attr = None\<rparr>) =
             Option.bind (map_of ts nm) TemplateConfig_dest"
    by (simp add: dict_get_def TemplateConfig_dest_def split: option.splits)
  show ?thesis
    unfolding resolve_dest_def Let_def d
    by (simp split: option.splits)
qed

section \<open>The file system calls\<close>

lemma Parent_neq: "Parent p \<noteq> p"
  by (induction p) auto

lemma path_exists_error: "path_exists w p = Inl err \<Longrightarrow> \<exists>x. err = LibraryError x"
  by (auto simp: path_exists_def split: option.splits)

lemma makedirs_error: "makedirs w p = Inl err \<Longrightarrow> \<exists>x. err = LibraryError x"
  by (auto simp: makedirs_def split: option.splits if_splits)

lemma open_write_error: "open_write w p = Inl err \<Longrightarrow> \<exists>x. err = LibraryError x"
  by (auto simp: open_write_def split: option.splits if_splits)

lemma write_file_error: "write_file w p content = Inl err \<Longrightarrow> \<exists>x. err = LibraryError x"
  by (auto simp: write_file_def split: option.splits)

lemma write_file_content: "write_file w p content = Inr w' \<Longrightarrow> map_of (files w') p = Some content"
  by (auto simp: write_file_def map_of_dict_set split: option.splits)


lemma open_write_ok:
  assumes "faults w = []" and "p \<notin> set (dirs w)" and "Parent p \<notin> set (map fst (files w))"
    and "Parent p \<in> set (dirs w)"
  shows "open_write w p = Inr (w\<lparr>files := dict_set (files w) p []\<rparr>)"
  using assms by (simp add: open_write_def)

lemma write_file_ok:
  "faults w = [] \<Longrightarrow> write_file w p content = Inr (w\<lparr>files := dict_set (files w) p content\<rparr>)"
  by (simp add: write_file_def)

section \<open>render\_to\_disk after the destination is resolved\<close>

lemma render_to_disk_found:
  assumes "templates h e = (Inr ts, e1)"
    and "all h e1 = (Inr backends, e2)"
    and "lookup_loop backends nm None [] = Inr (Some t, chain)"
    and "resolve_dest h nm (dict_get ts nm \<lparr>name = nm, dest_attr = None, context_attr = None\<rparr>) t dest_arg = Inr d"
    and "path_exists w (Parent d) = Inr there"
    and "(if there then Inr w else makedirs w (Parent d)) = Inr w1"
    and "update_context nm (dict_get ts nm \<lparr>name = nm, dest_attr = None, context_attr = None\<rparr>) ctx_arg e2 w1 = (ctx, e3, w2)"
    and "open_write w2 d = Inr w3"
    and "context_prop h e3 = (Inr global_ctx, e4)"
    and "render t (dict_update (dict_update [] global_ctx) ctx) = Inr content"
    and "write_file w3 d content = Inr w4"
  shows "render_to_disk h nm ctx_arg dest_arg e w = (Inr d, e4, w4)"
  unfolding render_to_disk_def Let_def
  by (simp add: assms default_TemplateConfig)

lemma ensured_class_attr:
  "(if there then Inr w else makedirs w p) = Inr w1 \<Longrightarrow>
   TemplateConfig_context w1 cfg = TemplateConfig_context w cfg"
  by (auto simp: makedirs_def TemplateConfig_context_def split: if_splits option.splits)

lemma render_to_disk_outcomes:
  assumes "templates h e = (Inr ts, e1)"
    and "all h e1 = (Inr backends, e2)"
    and "lookup_loop backends nm None [] = Inr (Some t, chain)"
    and "resolve_dest h nm (dict_get ts nm \<lparr>name = nm, dest_attr = None, context_attr = None\<rparr>) t dest_arg = Inr d"
    and "fst (context_prop h e2) = Inr global_ctx"
    and "r = render_to_disk h nm ctx_arg dest_arg e w"
    and "passed = dict_update (dict_update [] global_ctx)
           (dict_update
              (TemplateConfig_context w (dict_get ts nm \<lparr>name = nm, dest_attr = None, context_attr = None\<rparr>))
              (case ctx_arg of None \<Rightarrow> [] | Some c \<Rightarrow> c))"
  shows "(\<exists>content. render t passed = Inr content \<and> fst r = Inr d
            \<and> map_of (files (snd (snd r))) d = Some content)
         \<or> (\<exists>x. fst r = Inl (LibraryError x))
         \<or> (\<exists>err. render t passed = Inl err \<and> fst r = Inl err)"
proof -
  let ?cfg = "dict_get ts nm \<lparr>name = nm, dest_attr = None, context_attr = None\<rparr>"
  note defs = render_to_disk_def Let_def default_TemplateConfig assms(1-4)
  show ?thesis
  proof (cases "path_exists w (Parent d)")
    case (Inl err)
    then show ?thesis
      using path_exists_error [OF Inl] unfolding assms(6) by (auto simp: defs)
  next
    case there: (Inr there)
    show ?thesis
    proof (cases "if there then Inr w else makedirs w (Parent d)")
      case (Inl err)
      then have "makedirs w (Parent d) = Inl err" by (simp split: if_splits)
      from makedirs_error [OF this] Inl show ?thesis
        unfolding assms(6) by (auto simp: defs there)
    next
      case w1: (Inr w1)
      obtain ctx e3 w2 where u: "update_context nm ?cfg ctx_arg e2 w1 = (ctx, e3, w2)"
        by (cases "update_context nm ?cfg ctx_arg e2 w1") auto
      have p: "passed = dict_update (dict_update [] global_ctx) ctx"
        unfolding assms(7) update_context_ctx [OF u] ensured_class_attr [OF w1] ..
      have "fst (context_prop h e3) = Inr global_ctx"
        unfolding context_prop_update_context [OF u] by (rule assms(5))
      then obtain e4 where c: "context_prop h e3 = (Inr global_ctx, e4)"
        by (cases "context_prop h e3") auto
      show ?thesis
      proof (cases "open_write w2 d")
        case (Inl err)
        from open_write_error [OF this] Inl show ?thesis
          unfolding assms(6) by (auto simp: defs there w1 u)
      next
        case w3: (Inr w3)
        show ?thesis
        proof (cases "render t passed")
          case (Inl err)
          have "fst r = Inl err"
            unfolding assms(6) using Inl unfolding p by (simp add: defs there w1 u w3 c)
          with Inl show ?thesis by blast
        next
          case content: (Inr content)
          then have content': "render t (dict_update (dict_update [] global_ctx) ctx) = Inr content"
            unfolding p .
          show ?thesis
          proof (cases "write_file w3 d content")
            case (Inl err)
            from write_file_error [OF this] Inl show ?thesis
              unfolding assms(6) by (auto simp: defs there w1 u w3 c content')
          next
            case (Inr w4)
            have "r = (Inr d, e4, w4)"
              unfolding assms(6)
              by (rule render_to_disk_found [OF assms(1-4) there w1 u w3 c content' Inr])
            with content write_file_content [OF Inr] show ?thesis by auto
          qed
        qed
      qed
    qed
  qed
qed


section \<open>The configured destination, and a fresh engine step by step\<close>







text \<open>The example engine, step by step.\<close>

lemma ex_lookup_t:
  "lookup_loop [ex_backend_A, ex_backend_B] ''t.html'' None [] = Inr (Some ex_template_B, [])"
  by (simp add: ex_backend_A_def ex_backend_B_def)

lemma ex_lookup_u:
  "lookup_loop [ex_backend_A, ex_backend_B] ''u.html'' None [] =
     Inr (Some ex_template_B, [TemplateDoesNotExist ''u.html'' []])"
  by (simp add: ex_backend_A_def ex_backend_B_def)

lemma ex_ready_templates:
  "templates h ex_engine_ready = (Inr ex_template_configs, ex_engine_ready)"
  by (rule templates_cached_read) (simp add: ex_engine_ready_def ex_engine_templates_def)

lemma ex_ready_all:
  "all h ex_engine_ready = (Inr [ex_backend_A, ex_backend_B], ex_engine_ready)"
proof -
  have c: "engines_cached ex_engine_ready = Some ex_backends"
    by (simp add: ex_engine_ready_def)
  have d: "distinct (map fst ex_backends)" by (simp add: ex_backends_def)
  show ?thesis
    using all_of_engines [OF engines_cached_read [OF c] d, of h] by (simp add: ex_backends_def)
qed

lemma ex_resolve_dest:
  "nm = ''t.html'' \<or> nm = ''u.html'' \<Longrightarrow>
   resolve_dest ex_host nm
     (dict_get ex_template_configs nm \<lparr>name = nm, dest_attr = None, context_attr = None\<rparr>)
     ex_template_B None = Inr (Join (Join (Path ''/srv/app'') ''static'') nm)"
  unfolding resolve_dest_cases
  by (auto simp: ex_template_configs_def TemplateConfig_dest_def ex_template_B_def)

lemma ex_template_config_t:
  "dict_get ex_template_configs ''t.html'' \<lparr>name = ''t.html'', dest_attr = None, context_attr = None\<rparr> =
     \<lparr>name = ''t.html'', dest_attr = None, context_attr = Some [(''b'', PInt 3), (''c'', PInt 4)]\<rparr>"
  by (simp add: ex_template_configs_def dict_get_def)

lemma ex_template_config_u:
  "dict_get ex_template_configs ''u.html'' \<lparr>name = ''u.html'', dest_attr = None, context_attr = None\<rparr> =
     \<lparr>name = ''u.html'', dest_attr = None, context_attr = None\<rparr>"
  by (simp add: ex_template_configs_def dict_get_def)



lemma ex_render_total:
  "\<forall>passed. \<exists>content. render ex_template_A passed = Inr content"
  "\<forall>passed. \<exists>content. render ex_template_B passed = Inr content"
  by (simp_all add: ex_template_A_def ex_template_B_def)







lemma render_to_disk_clean:
  assumes "templates h e = (Inr ts, e1)"
    and "all h e1 = (Inr backends, e2)"
    and "lookup_loop backends nm None [] = Inr (Some t, chain)"
    and "resolve_dest h nm (dict_get ts nm \<lparr>name = nm, dest_attr = None, context_attr = None\<rparr>) t dest_arg = Inr d"
    and "faults w = []" and "d \<notin> set (dirs w)" and "Parent d \<notin> set (map fst (files w))"
    and "update_context nm (dict_get ts nm \<lparr>name = nm, dest_attr = None, context_attr = None\<rparr>) ctx_arg e2
           (if Parent d \<in> set (dirs w) then w else w\<lparr>dirs := dirs w @ [Parent d]\<rparr>) = (ctx, e3, w2)"
    and "context_prop h e3 = (Inr global_ctx, e4)"
    and "render t (dict_update (dict_update [] global_ctx) ctx) = Inr content"
    and "Parent d \<in> set (dirs w) \<or> Parent (Parent d) \<notin> set (map fst (files w))"
  shows "render_to_disk h nm ctx_arg dest_arg e w =
           (Inr d, e4, w2\<lparr>files := dict_set (files w2) d content\<rparr>)"
proof -
  let ?w1 = "if Parent d \<in> set (dirs w) then w else w\<lparr>dirs := dirs w @ [Parent d]\<rparr>"
  have there: "path_exists w (Parent d) = Inr (Parent d \<in> set (dirs w))"
    using assms(5,7) by (simp add: path_exists_def)
  have w1: "(if Parent d \<in> set (dirs w) then Inr w else makedirs w (Parent d)) = Inr ?w1"
    using assms(5,7,11) by (auto simp: makedirs_def)
  note uw = update_context_world [OF assms(8)]
  have f2: "faults w2 = []" using uw(3) assms(5) by (simp split: if_splits)
  have w3: "open_write w2 d = Inr (w2\<lparr>files := dict_set (files w2) d []\<rparr>)"
  proof (rule open_write_ok [OF f2])
    show "d \<notin> set (dirs w2)" using uw(1) assms(6) Parent_neq [of d] by (auto split: if_splits)
    show "Parent d \<notin> set (map fst (files w2))" using uw(2) assms(7) by (simp split: if_splits)
    show "Parent d \<in> set (dirs w2)" using uw(1) by (simp split: if_splits)
  qed
  let ?w3 = "w2\<lparr>files := dict_set (files w2) d []\<rparr>"
  have "faults ?w3 = []" using f2 by simp
  from write_file_ok [OF this, of d content]
  have w4: "write_file ?w3 d content = Inr (w2\<lparr>files := dict_set (files w2) d content\<rparr>)"
    by (simp add: dict_set_def)
  show ?thesis
    by (rule render_to_disk_found [OF assms(1-4) there w1 assms(8) w3 assms(9,10) w4])
qed

lemma render_to_disk_context_layers:
  assumes "templates h e = (Inr ts, e1)"
    and "all h e1 = (Inr backends, e2)"
    and "lookup_loop backends nm None [] = Inr (Some t, chain)"
    and "fst (context_prop h e2) = Inr global_ctx"
    and "fst (render_to_disk h nm ctx_arg dest_arg e w) = Inr d"
    and "stored = TemplateConfig_context w (dict_get ts nm \<lparr>name = nm, dest_attr = None, context_attr = None\<rparr>)"
    and "override = (case ctx_arg of None \<Rightarrow> [] | Some c \<Rightarrow> c)"
    and "distinct (map fst stored)" and "distinct (map fst override)"
    and "distinct (map fst global_ctx)"
  shows "\<exists>passed content. render t passed = Inr content
           \<and> map_of (files (snd (snd (render_to_disk h nm ctx_arg dest_arg e w)))) d = Some content
           \<and> map_of passed = map_of global_ctx ++ map_of stored ++ map_of override"
proof -
  let ?cfg = "dict_get ts nm \<lparr>name = nm, dest_attr = None, context_attr = None\<rparr>"
  let ?passed = "dict_update (dict_update [] global_ctx) (dict_update stored override)"
  have r: "resolve_dest h nm ?cfg t dest_arg = Inr d"
  proof (cases "resolve_dest h nm ?cfg t dest_arg")
    case (Inl err)
    from assms(5) show ?thesis
      unfolding render_to_disk_no_dest [OF assms(1,2,3) Inl] by simp
  next
    case (Inr d')
    from render_to_disk_outcomes [where ctx_arg = ctx_arg and w = w, OF assms(1,2,3) Inr assms(4) refl refl] assms(5)
    have "d' = d" by auto
    with Inr show ?thesis by simp
  qed
  from render_to_disk_outcomes [where ctx_arg = ctx_arg and w = w, OF assms(1,2,3) r assms(4) refl refl] assms(5)
  obtain content where c: "render t ?passed = Inr content"
    and f: "map_of (files (snd (snd (render_to_disk h nm ctx_arg dest_arg e w)))) d = Some content"
    unfolding assms(6,7) by auto
  have dc: "distinct (map fst (dict_update stored override))"
    by (rule distinct_dict_update [OF assms(8)])
  have "map_of ?passed = map_of (dict_update [] global_ctx) ++ map_of (dict_update stored override)"
    by (rule map_of_dict_update [OF dc])
  also have "map_of (dict_update stored override) = map_of stored ++ map_of override"
    by (rule map_of_dict_update [OF assms(9)])
  also have "map_of (dict_update [] global_ctx) = map_of global_ctx"
    using map_of_dict_update [OF assms(10), of "[]"] by simp
  finally have "map_of ?passed = map_of global_ctx ++ map_of stored ++ map_of override"
    by simp
  with c f show ?thesis by blast
qed

section \<open>Validation of the configuration\<close>

text \<open>
  Claim C6. Reading \<^verbatim>\<open>config\<close> for the first time checks the root keys of the configuration
  in effect: the dict given to the constructor when it is not empty, otherwise
  \<^verbatim>\<open>settings.STATIC_TEMPLATES\<close> (an empty dict when that is \<^verbatim>\<open>None\<close>). If some root key is not
  one of \<^verbatim>\<open>ENGINES\<close>, \<^verbatim>\<open>templates\<close>, \<^verbatim>\<open>context\<close>, the access raises \<^verbatim>\<open>ImproperlyConfigured\<close>
  and the message carries the list of exactly the unrecognized keys, in the order of the
  dict; if every root key is permitted, the access returns the configuration.
\<close>

theorem config_root_keys:
  assumes "\<not> config_cached e"
    and "(if config_attr e \<noteq> [] then Some (config_attr e)
          else map_option (\<lambda>st. case st of None \<Rightarrow> [] | Some d \<Rightarrow> d) (STATIC_TEMPLATES h)) = Some c"
  shows "((\<exists>k \<in> set (map fst c). k \<notin> {''ENGINES'', ''templates'', ''context''}) \<longrightarrow>
            fst (config h e) =
              Inl (ImproperlyConfigured
                [Lit ''Unrecognized STATIC_TEMPLATES configuration directives: '',
                 Val (PList (map PStr
                   (filter (\<lambda>k. k \<notin> {''ENGINES'', ''templates'', ''context''}) (map fst c))))]))
       \<and> ((\<forall>k \<in> set (map fst c). k \<in> {''ENGINES'', ''templates'', ''context''}) \<longrightarrow>
            fst (config h e) = Inr c)"
proof -
  let ?bad = "filter (\<lambda>k. k \<notin> set [''ENGINES'', ''templates'', ''context'']) (map fst c)"
  have set_eq: "set [''ENGINES'', ''templates'', ''context''] = {''ENGINES'', ''templates'', ''context''}"
    by simp
  have bad: "?bad \<noteq> [] \<longleftrightarrow> (\<exists>k \<in> set (map fst c). k \<notin> {''ENGINES'', ''templates'', ''context''})"
    unfolding set_eq filter_empty_conv by blast
  have cfg: "fst (config h e) =
          (if ?bad \<noteq> [] then
             Inl (ImproperlyConfigured
               [Lit ''Unrecognized STATIC_TEMPLATES configuration directives: '',
                Val (PList (map PStr ?bad))])
           else Inr c)"
    unfolding config_uncached [OF assms] by simp
  show ?thesis
  proof (cases "?bad \<noteq> []")
    case True
    then have "fst (config h e) =
                 Inl (ImproperlyConfigured
                   [Lit ''Unrecognized STATIC_TEMPLATES configuration directives: '',
                    Val (PList (map PStr ?bad))])"
      unfolding cfg by (rule if_P)
    moreover have "\<not> (\<forall>k \<in> set (map fst c). k \<in> {''ENGINES'', ''templates'', ''context''})"
      using True bad by blast
    ultimately show ?thesis unfolding set_eq by blast
  next
    case False
    then have "fst (config h e) = Inr c"
      unfolding cfg by (rule if_not_P)
    moreover have "\<not> (\<exists>k \<in> set (map fst c). k \<notin> {''ENGINES'', ''templates'', ''context''})"
      using False bad by blast
    ultimately show ?thesis by blast
  qed
qed

theorem config_root_keys_witness:
  "fst (config ex_host (StaticTemplateEngine (Some [(''context'', PDict []), (''engines'', PList []), (''debug'', PBool True)]))) =
     Inl (ImproperlyConfigured
       [Lit ''Unrecognized STATIC_TEMPLATES configuration directives: '',
        Val (PList [PStr ''engines'', PStr ''debug''])])
   \<and> fst (config ex_host (StaticTemplateEngine (Some ex_config))) = Inr ex_config"
proof -
  have 1: "\<not> config_cached (StaticTemplateEngine x)" for x
    by (simp add: StaticTemplateEngine_def)
  have 2: "config_attr (StaticTemplateEngine (Some x)) = x" for x
    by (simp add: StaticTemplateEngine_def)
  have 3: "map fst ex_config = [''ENGINES'', ''context'', ''templates'']"
    by (simp add: ex_config_def)
  have 4: "ex_config \<noteq> []"
    by (simp add: ex_config_def)
  show ?thesis
    using config_root_keys
      [of "StaticTemplateEngine (Some [(''context'', PDict []), (''engines'', PList []), (''debug'', PBool True)])"
          ex_host "[(''context'', PDict []), (''engines'', PList []), (''debug'', PBool True)]"]
      config_root_keys [of "StaticTemplateEngine (Some ex_config)" ex_host ex_config]
    by (simp add: 1 2 3 4)
qed

text \<open>
  Claim C8. \<^verbatim>\<open>TemplateConfig.__init__\<close> raises \<^verbatim>\<open>ImproperlyConfigured\<close> when \<^verbatim>\<open>dest\<close> is a
  string or a \<^verbatim>\<open>Path\<close> that is not absolute, and when \<^verbatim>\<open>dest\<close> is a value other than
  \<^verbatim>\<open>None\<close> that is neither a string nor a \<^verbatim>\<open>Path\<close>, whatever the context argument is. For
  an absolute string or \<^verbatim>\<open>Path\<close>, and a context that is itself acceptable (absent or a
  dict), the construction succeeds and the property \<^verbatim>\<open>dest\<close> of the new object is
  \<^verbatim>\<open>Path(dest)\<close>.
\<close>

theorem TemplateConfig_init_dest:
  "(\<not> is_absolute (Path s1) \<longrightarrow>
      TemplateConfig_init nm (PStr s1) ctx =
        Inl (ImproperlyConfigured
          [Lit ''In STATIC_TEMPLATES, template '', Val (PStr nm), Lit '' dest must be absolute!'']))
   \<and> (\<not> is_absolute p1 \<longrightarrow>
      TemplateConfig_init nm (PPath p1) ctx =
        Inl (ImproperlyConfigured
          [Lit ''In STATIC_TEMPLATES, template '', Val (PStr nm), Lit '' dest must be absolute!'']))
   \<and> (v \<noteq> PNone \<and> (\<forall>s. v \<noteq> PStr s) \<and> (\<forall>p. v \<noteq> PPath p) \<longrightarrow>
      TemplateConfig_init nm v ctx =
        Inl (ImproperlyConfigured
          [Lit ''Template '', Val (PStr nm),
           Lit '' 'dest' parameter in STATIC_TEMPLATES must be a string or path-like object, not '',
           TypeOf v]))
   \<and> (is_absolute (Path s2) \<and> (ctx = PNone \<or> ctx = PDict c) \<longrightarrow>
      (\<exists>tc. TemplateConfig_init nm (PStr s2) ctx = Inr tc \<and> TemplateConfig_dest tc = Some (Path s2)))
   \<and> (is_absolute p2 \<and> (ctx = PNone \<or> ctx = PDict c) \<longrightarrow>
      (\<exists>tc. TemplateConfig_init nm (PPath p2) ctx = Inr tc \<and> TemplateConfig_dest tc = Some p2))"
  by (cases v) (auto simp: TemplateConfig_init_def TemplateConfig_dest_def)

theorem TemplateConfig_init_dest_witness:
  "TemplateConfig_init ''a.js'' (PStr ''out/a.js'') PNone =
     Inl (ImproperlyConfigured
       [Lit ''In STATIC_TEMPLATES, template '', Val (PStr ''a.js''), Lit '' dest must be absolute!''])
   \<and> TemplateConfig_init ''a.js'' (PPath (Join (Path ''out'') ''a.js'')) PNone =
     Inl (ImproperlyConfigured
       [Lit ''In STATIC_TEMPLATES, template '', Val (PStr ''a.js''), Lit '' dest must be absolute!''])
   \<and> TemplateConfig_init ''a.js'' (PInt 3) PNone =
     Inl (ImproperlyConfigured
       [Lit ''Template '', Val (PStr ''a.js''),
        Lit '' 'dest' parameter in STATIC_TEMPLATES must be a string or path-like object, not '',
        TypeOf (PInt 3)])
   \<and> map_sum id TemplateConfig_dest (TemplateConfig_init ''a.js'' (PStr ''/srv/a.js'') PNone) =
     Inr (Some (Path ''/srv/a.js''))
   \<and> map_sum id TemplateConfig_dest
        (TemplateConfig_init ''a.js'' (PPath (Join (Path ''/srv'') ''a.js'')) PNone) =
     Inr (Some (Join (Path ''/srv'') ''a.js''))"
  using TemplateConfig_init_dest
    [of "''out/a.js''" "''a.js''" PNone "Join (Path ''out'') ''a.js''" "PInt 3" "''/srv/a.js''" "[]"
        "Join (Path ''/srv'') ''a.js''"]
  by auto

section \<open>The global context\<close>

text \<open>
  Claim C9, as the code has it. For a valid configuration (the access to \<^verbatim>\<open>config\<close> succeeds
  and \<^verbatim>\<open>context\<close> is absent or a dict), the global context is the dict
  \<^verbatim>\<open>{'settings': settings, **global_ctx}\<close>: it always has a \<^verbatim>\<open>settings\<close> entry and every
  variable the caller declared, with the declared value. The \<^verbatim>\<open>settings\<close> entry is the
  handle to the host settings when the caller declared no variable of that name; a
  declared \<^verbatim>\<open>settings\<close> variable comes later in the literal and replaces the handle.
\<close>

theorem context_prop_settings:
  assumes "context_cached e = None"
    and "config h e = (Inr cfg, e1)"
    and "dict_get cfg ''context'' (PDict []) = PDict g"
    and "distinct (map fst g)"
  shows "\<exists>c e2. context_prop h e = (Inr c, e2)
           \<and> map_of c = [''settings'' \<mapsto> PSettings] ++ map_of g
           \<and> ''settings'' \<in> fst ` set c
           \<and> (\<forall>k v. map_of g k = Some v \<longrightarrow> map_of c k = Some v)
           \<and> (''settings'' \<notin> fst ` set g \<longrightarrow> map_of c ''settings'' = Some PSettings)"
proof -
  let ?c = "dict_update [(''settings'', PSettings)] g"
  have m: "map_of ?c = [''settings'' \<mapsto> PSettings] ++ map_of g"
    using map_of_dict_update [OF assms(4), of "[(''settings'', PSettings)]"] by simp
  have k: "''settings'' \<in> fst ` set ?c"
    unfolding keys_dict_update by simp
  have v: "\<forall>k v. map_of g k = Some v \<longrightarrow> map_of ?c k = Some v"
    unfolding m by (simp add: map_add_Some_iff)
  have s: "''settings'' \<notin> fst ` set g \<longrightarrow> map_of ?c ''settings'' = Some PSettings"
  proof
    assume "''settings'' \<notin> fst ` set g"
    then have "map_of g ''settings'' = None" by (simp add: map_of_eq_None_iff)
    then show "map_of ?c ''settings'' = Some PSettings"
      unfolding m by (simp add: map_add_def)
  qed
  show ?thesis
    unfolding context_prop_uncached [OF assms(1-3)] using m k v s by blast
qed

theorem context_prop_settings_witness:
  "\<exists>c e2. context_prop ex_host (StaticTemplateEngine (Some ex_config)) = (Inr c, e2)
      \<and> map_of c ''settings'' = Some PSettings
      \<and> map_of c ''a'' = Some (PInt 1) \<and> map_of c ''b'' = Some (PInt 2)"
proof -
  have 1: "context_cached (StaticTemplateEngine (Some ex_config)) = None"
    by (rule fresh_engine_fields)
  have 2: "config ex_host (StaticTemplateEngine (Some ex_config)) =
             (Inr ex_config, (StaticTemplateEngine (Some ex_config))\<lparr>config_cached := True\<rparr>)"
    by (rule fresh_config_read) (simp_all add: ex_config_def)
  have 3: "dict_get ex_config ''context'' (PDict []) = PDict [(''a'', PInt 1), (''b'', PInt 2)]"
    by (rule dict_get_hit) (simp add: ex_config_def)
  have 4: "distinct (map fst [(''a'', PInt 1), (''b'', PInt 2)])"
    by simp
  from context_prop_settings [OF 1 2 3 4]
  obtain c e2 where r: "context_prop ex_host (StaticTemplateEngine (Some ex_config)) = (Inr c, e2)"
    and m: "\<forall>k v. map_of [(''a'', PInt 1), (''b'', PInt 2)] k = Some v \<longrightarrow> map_of c k = Some v"
    and s: "''settings'' \<notin> fst ` set [(''a'', PInt 1), (''b'', PInt 2)] \<longrightarrow> map_of c ''settings'' = Some PSettings"
    by blast
  have "map_of c ''settings'' = Some PSettings" using s by simp
  moreover have "map_of c ''a'' = Some (PInt 1)" using m by simp
  moreover have "map_of c ''b'' = Some (PInt 2)" using m by simp
  ultimately show ?thesis using r by blast
qed

text \<open>
  Claim C9 as stated also promises the handle when the declared global context has a
  \<^verbatim>\<open>settings\<close> key. With \<^verbatim>\<open>{'context': {'settings': 1}}\<close> the global context is
  \<^verbatim>\<open>{'settings': 1}\<close>: the declared value, not the handle.
\<close>

theorem context_prop_settings_counterexample:
  "fst (context_prop ex_host
          (StaticTemplateEngine (Some [(''context'', PDict [(''settings'', PInt 1)])]))) =
     Inr [(''settings'', PInt 1)]
   \<and> PInt 1 \<noteq> PSettings"
proof -
  let ?c = "[(''context'', PDict [(''settings'', PInt 1)])]"
  have 1: "config ex_host (StaticTemplateEngine (Some ?c)) =
          (Inr ?c, (StaticTemplateEngine (Some ?c))\<lparr>config_cached := True\<rparr>)"
    by (rule fresh_config_read) simp_all
  have 2: "dict_get ?c ''context'' (PDict []) = PDict [(''settings'', PInt 1)]"
    by (rule dict_get_hit) simp
  have 3: "dict_update [(''settings'', PSettings)] [(''settings'', PInt 1)] = [(''settings'', PInt 1)]"
    by (simp add: dict_update_def dict_set_def)
  show ?thesis
    unfolding context_prop_uncached [OF fresh_engine_fields(3) 1 2] 3 by simp
qed

section \<open>The default engine\<close>

text \<open>
  Claim C10. Let the configuration be valid (the access to \<^verbatim>\<open>config\<close> succeeds) and have no
  \<^verbatim>\<open>ENGINES\<close> key. The first access to \<^verbatim>\<open>engines\<close>, whether it then succeeds in building the
  backends or not, leaves the engine with \<^verbatim>\<open>DEFAULT_ENGINE_CONFIG\<close> stored under \<^verbatim>\<open>ENGINES\<close>
  in the configuration dict itself, and the next read of \<^verbatim>\<open>config\<close> returns that dict.
\<close>

theorem engines_writes_default:
  assumes "engines_cached e = None"
    and "config h e = (Inr cfg, e1)"
    and "map_of cfg ''ENGINES'' = None"
  shows "config_attr (snd (engines h e)) = dict_set cfg ''ENGINES'' DEFAULT_ENGINE_CONFIG
       \<and> map_of (config_attr (snd (engines h e))) ''ENGINES'' = Some DEFAULT_ENGINE_CONFIG
       \<and> config h (snd (engines h e)) = (Inr (config_attr (snd (engines h e))), snd (engines h e))"
proof -
  have c: "config_cached e1" by (rule config_Inr(2) [OF assms(2)])
  have 1: "config_attr (snd (engines h e)) = dict_set cfg ''ENGINES'' DEFAULT_ENGINE_CONFIG"
    unfolding engines_uncached_default [OF assms(1,2) disjI1 [OF assms(3)]]
    by (simp split: sum.splits)
  have 2: "config_cached (snd (engines h e))"
    unfolding engines_uncached_default [OF assms(1,2) disjI1 [OF assms(3)]]
    using c by (simp split: sum.splits)
  have 3: "map_of (dict_set cfg ''ENGINES'' DEFAULT_ENGINE_CONFIG) ''ENGINES'' = Some DEFAULT_ENGINE_CONFIG"
    by (simp add: map_of_dict_set)
  show ?thesis
    using 1 3 config_cached_read [OF 2, of h] by simp
qed

theorem engines_writes_default_witness:
  "map_of (config_attr (snd (engines ex_host (StaticTemplateEngine (Some [(''context'', PDict [])])))))
      ''ENGINES'' = Some DEFAULT_ENGINE_CONFIG
   \<and> fst (config ex_host (snd (engines ex_host (StaticTemplateEngine (Some [(''context'', PDict [])]))))) =
       Inr [(''context'', PDict []), (''ENGINES'', DEFAULT_ENGINE_CONFIG)]"
proof -
  let ?c = "[(''context'', PDict [])]"
  have 1: "config ex_host (StaticTemplateEngine (Some ?c)) =
          (Inr ?c, (StaticTemplateEngine (Some ?c))\<lparr>config_cached := True\<rparr>)"
    by (rule fresh_config_read) simp_all
  have 2: "map_of ?c ''ENGINES'' = None" by simp
  have 3: "dict_set ?c ''ENGINES'' DEFAULT_ENGINE_CONFIG = [(''context'', PDict []), (''ENGINES'', DEFAULT_ENGINE_CONFIG)]"
    by (simp add: dict_set_def)
  show ?thesis
    using engines_writes_default [OF fresh_engine_fields(5) 1 2] unfolding 3 by simp
qed

section \<open>Duplicate aliases\<close>




section \<open>Template lookup\<close>

text \<open>
  Claim C7. Let the template configuration and the backends of the engine be valid, with
  \<open>backends\<close> the list that \<^verbatim>\<open>all()\<close> returns, in order of precedence. If every backend
  answers \<^verbatim>\<open>get_template(name)\<close> with \<^verbatim>\<open>TemplateDoesNotExist\<close>, then \<^verbatim>\<open>render_to_disk\<close> raises
  \<^verbatim>\<open>TemplateDoesNotExist\<close> for that name, and its chain has one entry for each backend, in
  the same order: the \<open>i\<close>-th entry is the exception that the \<open>i\<close>-th backend raised.
\<close>

theorem render_to_disk_miss_chain:
  assumes "templates h e = (Inr ts, e1)"
    and "all h e1 = (Inr backends, e2)"
    and "\<forall>b \<in> set backends. \<exists>m c. get_template b nm = Inl (TemplateDoesNotExist m c)"
  shows "\<exists>chain. fst (render_to_disk h nm ctx_arg dest_arg e w) = Inl (TemplateDoesNotExist nm chain)
           \<and> length chain = length backends
           \<and> list_all2 (\<lambda>b miss. get_template b nm = Inl miss) backends chain"
proof -
  from lookup_loop_all_miss [OF assms(3), of None "[]"]
  obtain chain where l: "lookup_loop backends nm None [] = Inr (None, chain)"
    and a: "list_all2 (\<lambda>b miss. get_template b nm = Inl miss) backends chain"
    by auto
  have "length chain = length backends"
    using a by (simp add: list_all2_lengthD)
  moreover have "fst (render_to_disk h nm ctx_arg dest_arg e w) = Inl (TemplateDoesNotExist nm chain)"
    unfolding render_to_disk_not_found [OF assms(1,2) l] by simp
  ultimately show ?thesis using a by blast
qed

theorem render_to_disk_miss_chain_witness:
  "\<exists>chain. fst (render_to_disk ex_host ''zz.html'' None None ex_engine ex_world) =
              Inl (TemplateDoesNotExist ''zz.html'' chain)
     \<and> length chain = length [ex_backend_A, ex_backend_B]
     \<and> list_all2 (\<lambda>b miss. get_template b ''zz.html'' = Inl miss) [ex_backend_A, ex_backend_B] chain"
proof -
  have 3: "\<forall>b \<in> set [ex_backend_A, ex_backend_B].
             \<exists>m c. get_template b ''zz.html'' = Inl (TemplateDoesNotExist m c)"
    by (simp add: ex_backend_A_def ex_backend_B_def)
  show ?thesis
    by (rule render_to_disk_miss_chain [OF ex_templates ex_all 3])
qed

section \<open>The destination\<close>





section \<open>Where the code departs from its documentation\<close>

text \<open>
  Claim C1. The docstring of \<^verbatim>\<open>render_to_disk\<close> promises the template of the highest
  precedence, and \<^verbatim>\<open>all()\<close> lists the backends in order of precedence. The loop has no
  \<^verbatim>\<open>break\<close>, so a later backend that also resolves the name overwrites the template found
  by an earlier one. In the example both backends know \<^verbatim>\<open>t.html\<close>; what is written to disk
  is the rendering of the second backend's template, at the path of its application.
\<close>

theorem render_to_disk_uses_last_backend:
  "fst (all ex_host (snd (templates ex_host ex_engine))) = Inr [ex_backend_A, ex_backend_B]
   \<and> get_template ex_backend_A ''t.html'' = Inr ex_template_A
   \<and> get_template ex_backend_B ''t.html'' = Inr ex_template_B
   \<and> fst (render_to_disk ex_host ''t.html'' None None ex_engine ex_world) =
        Inr (Join (Join (Path ''/srv/app'') ''static'') ''t.html'')
   \<and> files (snd (snd (render_to_disk ex_host ''t.html'' None None ex_engine ex_world))) =
        [(Join (Join (Path ''/srv/app'') ''static'') ''t.html'', ''B:settingsabc'')]
   \<and> render ex_template_A
        [(''settings'', PSettings), (''a'', PInt 1), (''b'', PInt 3), (''c'', PInt 4)] = Inr ''A:settingsabc''
   \<and> render ex_template_B
        [(''settings'', PSettings), (''a'', PInt 1), (''b'', PInt 3), (''c'', PInt 4)] = Inr ''B:settingsabc''"
proof -
  let ?d = "Join (Join (Path ''/srv/app'') ''static'') ''t.html''"
  let ?cfg = "dict_get ex_template_configs ''t.html''
                \<lparr>name = ''t.html'', dest_attr = None, context_attr = None\<rparr>"
  let ?w1 = "if Parent ?d \<in> set (dirs ex_world) then ex_world
             else ex_world\<lparr>dirs := dirs ex_world @ [Parent ?d]\<rparr>"
  have r: "resolve_dest ex_host ''t.html'' ?cfg ex_template_B None = Inr ?d"
    by (rule ex_resolve_dest) simp
  have w: "faults ex_world = []" "?d \<notin> set (dirs ex_world)"
      "Parent ?d \<notin> set (map fst (files ex_world))"
    by (simp_all add: ex_world_def)
  have u: "update_context ''t.html'' ?cfg None ex_engine_ready ?w1 =
             ([(''b'', PInt 3), (''c'', PInt 4)], ex_engine_ready, ?w1)"
    unfolding ex_template_config_t by (simp add: update_context_def TemplateConfig_context_def)
  have m: "dict_update (dict_update [] [(''settings'', PSettings), (''a'', PInt 1), (''b'', PInt 2)])
             [(''b'', PInt 3), (''c'', PInt 4)] =
           [(''settings'', PSettings), (''a'', PInt 1), (''b'', PInt 3), (''c'', PInt 4)]"
    by (simp add: dict_update_def dict_set_def)
  have 1: "fst (all ex_host (snd (templates ex_host ex_engine))) = Inr [ex_backend_A, ex_backend_B]"
    by (simp add: ex_templates ex_all)
  have 2: "get_template ex_backend_A ''t.html'' = Inr ex_template_A"
    by (simp add: ex_backend_A_def)
  have 3: "get_template ex_backend_B ''t.html'' = Inr ex_template_B"
    by (simp add: ex_backend_B_def)
  have 4: "render ex_template_A
        [(''settings'', PSettings), (''a'', PInt 1), (''b'', PInt 3), (''c'', PInt 4)] = Inr ''A:settingsabc''"
    by (simp add: ex_template_A_def)
  have 5: "render ex_template_B
        [(''settings'', PSettings), (''a'', PInt 1), (''b'', PInt 3), (''c'', PInt 4)] = Inr ''B:settingsabc''"
    by (simp add: ex_template_B_def)
  have c: "render ex_template_B
             (dict_update (dict_update [] [(''settings'', PSettings), (''a'', PInt 1), (''b'', PInt 2)])
                [(''b'', PInt 3), (''c'', PInt 4)]) = Inr ''B:settingsabc''"
    unfolding m by (rule 5)
  have pp: "Parent ?d \<in> set (dirs ex_world) \<or> Parent (Parent ?d) \<notin> set (map fst (files ex_world))"
    by (simp add: ex_world_def)
  note run = render_to_disk_clean [OF ex_templates ex_all ex_lookup_t r w u ex_context_prop c pp]
  have 6: "fst (render_to_disk ex_host ''t.html'' None None ex_engine ex_world) = Inr ?d"
    unfolding run by simp
  have 7: "files (snd (snd (render_to_disk ex_host ''t.html'' None None ex_engine ex_world))) =
        [(?d, ''B:settingsabc'')]"
    unfolding run by (simp add: ex_world_def dict_set_def)
  show ?thesis
    using 1 2 3 4 5 6 7 by blast
qed


text \<open>
  Claim C2. \<^verbatim>\<open>ctx = config.context\<close> is the dict of the \<^verbatim>\<open>TemplateConfig\<close>, not a copy, and
  \<^verbatim>\<open>ctx.update(context)\<close> writes the override into it. The example engine has read its
  \<^verbatim>\<open>templates\<close> and \<^verbatim>\<open>engines\<close>. A call for \<^verbatim>\<open>t.html\<close> with the override
  \<^verbatim>\<open>{'c': 5, 'd': 6}\<close> changes the context held by the cached \<^verbatim>\<open>TemplateConfig\<close> from
  \<^verbatim>\<open>{'b': 3, 'c': 4}\<close> to \<^verbatim>\<open>{'b': 3, 'c': 5, 'd': 6}\<close>; the same call for \<^verbatim>\<open>u.html\<close>, which has
  no configured context, changes the class attribute \<^verbatim>\<open>TemplateConfig.context_\<close> from \<^verbatim>\<open>{}\<close>
  to \<^verbatim>\<open>{'c': 5, 'd': 6}\<close>.
\<close>

theorem render_to_disk_mutates_cached_context:
  "snd (engines ex_host (snd (templates ex_host ex_engine))) = ex_engine_ready
   \<and> templates_cached ex_engine_ready =
        Some [(''t.html'', \<lparr>name = ''t.html'', dest_attr = None,
                            context_attr = Some [(''b'', PInt 3), (''c'', PInt 4)]\<rparr>)]
   \<and> templates_cached (fst (snd (render_to_disk ex_host ''t.html''
          (Some [(''c'', PInt 5), (''d'', PInt 6)]) None ex_engine_ready ex_world))) =
        Some [(''t.html'', \<lparr>name = ''t.html'', dest_attr = None,
                            context_attr = Some [(''b'', PInt 3), (''c'', PInt 5), (''d'', PInt 6)]\<rparr>)]
   \<and> TemplateConfig_context_attr ex_world = []
   \<and> TemplateConfig_context_attr (snd (snd (render_to_disk ex_host ''u.html''
          (Some [(''c'', PInt 5), (''d'', PInt 6)]) None ex_engine_ready ex_world))) =
        [(''c'', PInt 5), (''d'', PInt 6)]"
proof -
  let ?o = "[(''c'', PInt 5), (''d'', PInt 6)]"
  have 1: "snd (engines ex_host (snd (templates ex_host ex_engine))) = ex_engine_ready"
    by (simp add: ex_templates ex_engines_read)
  have 2: "templates_cached ex_engine_ready =
        Some [(''t.html'', \<lparr>name = ''t.html'', dest_attr = None,
                            context_attr = Some [(''b'', PInt 3), (''c'', PInt 4)]\<rparr>)]"
    by (simp add: ex_engine_ready_def ex_engine_templates_def ex_template_configs_def)
  have 4: "TemplateConfig_context_attr ex_world = []"
    by (simp add: ex_world_def)
  have w: "faults ex_world = []" "d \<notin> set (dirs ex_world)"
      "Parent d \<notin> set (map fst (files ex_world))" for d
    by (simp_all add: ex_world_def)
  have pp: "Parent d \<in> set (dirs ex_world) \<or> Parent (Parent d) \<notin> set (map fst (files ex_world))" for d
    by (simp add: ex_world_def)
  have 3: "templates_cached (fst (snd (render_to_disk ex_host ''t.html'' (Some ?o) None
             ex_engine_ready ex_world))) =
        Some [(''t.html'', \<lparr>name = ''t.html'', dest_attr = None,
                            context_attr = Some [(''b'', PInt 3), (''c'', PInt 5), (''d'', PInt 6)]\<rparr>)]"
  proof -
    let ?d = "Join (Join (Path ''/srv/app'') ''static'') ''t.html''"
    let ?cfg = "dict_get ex_template_configs ''t.html''
                  \<lparr>name = ''t.html'', dest_attr = None, context_attr = None\<rparr>"
    let ?w1 = "if Parent ?d \<in> set (dirs ex_world) then ex_world
               else ex_world\<lparr>dirs := dirs ex_world @ [Parent ?d]\<rparr>"
    have r: "resolve_dest ex_host ''t.html'' ?cfg ex_template_B None = Inr ?d"
      by (rule ex_resolve_dest) simp
    obtain ctx e3 w2 where u: "update_context ''t.html'' ?cfg (Some ?o) ex_engine_ready ?w1 = (ctx, e3, w2)"
      by (cases "update_context ''t.html'' ?cfg (Some ?o) ex_engine_ready ?w1") auto
    have t3: "templates_cached e3 =
        Some [(''t.html'', \<lparr>name = ''t.html'', dest_attr = None,
                            context_attr = Some [(''b'', PInt 3), (''c'', PInt 5), (''d'', PInt 6)]\<rparr>)]"
      using u unfolding ex_template_config_t
      by (auto simp: update_context_def Let_def 2 dict_update_def dict_set_def)
    have "fst (context_prop ex_host e3) = fst (context_prop ex_host ex_engine_ready)"
      by (rule context_prop_update_context [OF u])
    then obtain e4 where c: "context_prop ex_host e3 =
        (Inr [(''settings'', PSettings), (''a'', PInt 1), (''b'', PInt 2)], e4)"
      unfolding ex_context_prop by (cases "context_prop ex_host e3") auto
    have "templates_cached e4 = templates_cached e3"
      using context_prop_keeps_caches(1) [of ex_host e3] unfolding c by simp
    moreover from ex_render_total(2) obtain content where
      "render ex_template_B
         (dict_update (dict_update [] [(''settings'', PSettings), (''a'', PInt 1), (''b'', PInt 2)]) ctx) =
       Inr content" by blast
    note render_to_disk_clean [OF ex_ready_templates ex_ready_all ex_lookup_t r w u c this pp]
    ultimately show ?thesis
      unfolding t3 by simp
  qed
  have 5: "TemplateConfig_context_attr (snd (snd (render_to_disk ex_host ''u.html'' (Some ?o) None
             ex_engine_ready ex_world))) = ?o"
  proof -
    let ?d = "Join (Join (Path ''/srv/app'') ''static'') ''u.html''"
    let ?cfg = "dict_get ex_template_configs ''u.html''
                  \<lparr>name = ''u.html'', dest_attr = None, context_attr = None\<rparr>"
    let ?w1 = "if Parent ?d \<in> set (dirs ex_world) then ex_world
               else ex_world\<lparr>dirs := dirs ex_world @ [Parent ?d]\<rparr>"
    have r: "resolve_dest ex_host ''u.html'' ?cfg ex_template_B None = Inr ?d"
      by (rule ex_resolve_dest) simp
    have u: "update_context ''u.html'' ?cfg (Some ?o) ex_engine_ready ?w1 =
               (?o, ex_engine_ready, ?w1\<lparr>TemplateConfig_context_attr := ?o\<rparr>)"
      unfolding ex_template_config_u
      by (simp add: update_context_def Let_def dict_update_def dict_set_def ex_world_def)
    from ex_render_total(2) obtain content where
      "render ex_template_B
         (dict_update (dict_update [] [(''settings'', PSettings), (''a'', PInt 1), (''b'', PInt 2)]) ?o) =
       Inr content" by blast
    note render_to_disk_clean [OF ex_ready_templates ex_ready_all ex_lookup_u r w u ex_context_prop this pp]
    then show ?thesis by simp
  qed
  show ?thesis
    using 1 2 3 4 5 by blast
qed


text \<open>
  Claim C3. The class attribute \<^verbatim>\<open>TemplateConfig.context_\<close> outlives every engine. One
  engine renders \<^verbatim>\<open>u.html\<close>, a template with no configured context, with the override
  \<^verbatim>\<open>{'x': 1}\<close>; then a freshly constructed engine renders \<^verbatim>\<open>u.html\<close> with no override. The
  context passed to the template in the second call has the key \<^verbatim>\<open>x\<close>, which is in none of
  the settings entry, the global context \<^verbatim>\<open>{'a': 1, 'b': 2}\<close>, the (absent) per-template
  context and the (absent) override of that call.
\<close>

theorem render_to_disk_context_leaks:
  "files (snd (snd (render_to_disk ex_host ''u.html'' None None ex_engine
       (snd (snd (render_to_disk ex_host ''u.html'' (Some [(''x'', PInt 1)]) None ex_engine ex_world)))))) =
     [(Join (Join (Path ''/srv/app'') ''static'') ''u.html'', ''B:settingsabx'')]
   \<and> render ex_template_B [(''settings'', PSettings), (''a'', PInt 1), (''b'', PInt 2)] =
       Inr ''B:settingsab''
   \<and> render ex_template_B
        [(''settings'', PSettings), (''a'', PInt 1), (''b'', PInt 2), (''x'', PInt 1)] =
       Inr ''B:settingsabx''
   \<and> map_of ex_template_configs ''u.html'' = None"
proof -
  let ?d = "Join (Join (Path ''/srv/app'') ''static'') ''u.html''"
  let ?cfg = "dict_get ex_template_configs ''u.html''
                \<lparr>name = ''u.html'', dest_attr = None, context_attr = None\<rparr>"
  let ?g = "[(''settings'', PSettings), (''a'', PInt 1), (''b'', PInt 2)]"
  let ?w' = "\<lparr>TemplateConfig_context_attr = [(''x'', PInt 1)], dirs = [Parent ?d],
              files = [(?d, ''B:settingsabx'')], faults = []\<rparr>"
  have r: "resolve_dest ex_host ''u.html'' ?cfg ex_template_B None = Inr ?d"
    by (rule ex_resolve_dest) simp
  have m: "dict_update (dict_update [] ?g) [(''x'', PInt 1)] =
           [(''settings'', PSettings), (''a'', PInt 1), (''b'', PInt 2), (''x'', PInt 1)]"
    by (simp add: dict_update_def dict_set_def)
  have b: "render ex_template_B
        [(''settings'', PSettings), (''a'', PInt 1), (''b'', PInt 2), (''x'', PInt 1)] =
       Inr ''B:settingsabx''"
    by (simp add: ex_template_B_def)
  have b0: "render ex_template_B ?g = Inr ''B:settingsab''"
    by (simp add: ex_template_B_def)
  have c: "render ex_template_B (dict_update (dict_update [] ?g) [(''x'', PInt 1)]) =
             Inr ''B:settingsabx''"
    unfolding m by (rule b)
  have first: "snd (snd (render_to_disk ex_host ''u.html'' (Some [(''x'', PInt 1)]) None ex_engine ex_world)) = ?w'"
  proof -
    let ?w1 = "if Parent ?d \<in> set (dirs ex_world) then ex_world
               else ex_world\<lparr>dirs := dirs ex_world @ [Parent ?d]\<rparr>"
    have w: "faults ex_world = []" "?d \<notin> set (dirs ex_world)"
        "Parent ?d \<notin> set (map fst (files ex_world))"
      by (simp_all add: ex_world_def)
    have u: "update_context ''u.html'' ?cfg (Some [(''x'', PInt 1)]) ex_engine_ready ?w1 =
               ([(''x'', PInt 1)], ex_engine_ready, ?w1\<lparr>TemplateConfig_context_attr := [(''x'', PInt 1)]\<rparr>)"
      unfolding ex_template_config_u
      by (simp add: update_context_def Let_def dict_update_def dict_set_def ex_world_def)
    have pp: "Parent ?d \<in> set (dirs ex_world) \<or> Parent (Parent ?d) \<notin> set (map fst (files ex_world))"
      by (simp add: ex_world_def)
    show ?thesis
      unfolding render_to_disk_clean [OF ex_templates ex_all ex_lookup_u r w u ex_context_prop c pp]
      by (simp add: ex_world_def dict_set_def)
  qed
  have second: "snd (snd (render_to_disk ex_host ''u.html'' None None ex_engine ?w')) = ?w'"
  proof -
    let ?w1 = "if Parent ?d \<in> set (dirs ?w') then ?w' else ?w'\<lparr>dirs := dirs ?w' @ [Parent ?d]\<rparr>"
    have w: "faults ?w' = []" "?d \<notin> set (dirs ?w')" "Parent ?d \<notin> set (map fst (files ?w'))"
      by simp_all
    have u: "update_context ''u.html'' ?cfg None ex_engine_ready ?w1 =
               ([(''x'', PInt 1)], ex_engine_ready, ?w1)"
      unfolding ex_template_config_u by (simp add: update_context_def TemplateConfig_context_def)
    have pp: "Parent ?d \<in> set (dirs ?w') \<or> Parent (Parent ?d) \<notin> set (map fst (files ?w'))"
      by simp
    show ?thesis
      unfolding render_to_disk_clean [OF ex_templates ex_all ex_lookup_u r w u ex_context_prop c pp]
      by (simp add: dict_set_def)
  qed
  have u: "map_of ex_template_configs ''u.html'' = None"
    by (simp add: ex_template_configs_def)
  show ?thesis
    unfolding first second using b b0 u by simp
qed

end
